theory Spec2Isabelle
  imports Complex_Main
begin

section \<open>JavaScript values\<close>

text \<open>
  The scene editor is TypeScript. A JavaScript number is modelled as a real (rounding to
  double precision is not modelled, nor are \<open>NaN\<close> and the infinities; a value written
  into a \<open>Float32Array\<close> is rounded by \<open>fround\<close> below), \<open>undefined\<close> and \<open>null\<close> as
  \<open>None\<close>, a string as \<open>string\<close>, an array as a list. A thrown \<open>TypeError\<close> (a
  property read on \<open>undefined\<close>) is the left summand of a result.
\<close>

datatype js_error = TypeError

text \<open>Truthiness of an optional string: \<open>undefined\<close>, \<open>null\<close> and \<open>''\<close> are falsy.\<close>

definition truthy :: "string option \<Rightarrow> bool" where
  "truthy v = (case v of None \<Rightarrow> False | Some s \<Rightarrow> s \<noteq> [])"

text \<open>\<open>xs[i]\<close>: \<open>undefined\<close> outside the array.\<close>

definition js_index :: "'a list \<Rightarrow> int \<Rightarrow> 'a option" where
  "js_index xs i = (if 0 \<le> i \<and> i < int (length xs) then Some (xs ! nat i) else None)"

text \<open>\<open>xs.slice(0, e)\<close>: a negative end counts from the end of the array.\<close>

definition js_slice0 :: "'a list \<Rightarrow> int \<Rightarrow> 'a list" where
  "js_slice0 xs e = (if e < 0 then take (nat (int (length xs) + e)) xs else take (nat e) xs)"

text \<open>
  What a \<open>Float32Array\<close> stores for a number (\<open>Math.fround\<close>): the nearest number with a
  24-bit significand at the number's binary exponent (at least \<open>-126\<close>), ties to the
  even significand. Numbers too large for a float32 are outside the model.
\<close>

definition round_half_even :: "real \<Rightarrow> int" where
  "round_half_even q =
     (if q - of_int \<lfloor>q\<rfloor> < 1 / 2 then \<lfloor>q\<rfloor>
      else if q - of_int \<lfloor>q\<rfloor> > 1 / 2 then \<lfloor>q\<rfloor> + 1
      else if even \<lfloor>q\<rfloor> then \<lfloor>q\<rfloor> else \<lfloor>q\<rfloor> + 1)"

definition fround :: "real \<Rightarrow> real" where
  "fround x =
     (if x = 0 then 0
      else sgn x * of_int (round_half_even (\<bar>x\<bar> / 2 powr (of_int (max \<lfloor>log 2 \<bar>x\<bar>\<rfloor> (- 126)) - 23)))
             * 2 powr (of_int (max \<lfloor>log 2 \<bar>x\<bar>\<rfloor> (- 126)) - 23))"

section \<open>The rendering library's objects\<close>

text \<open>
  The rendering library (three.js) is an external collaborator. Its objects are modelled
  by the fields the store and the codec read and write.
\<close>

record vec3 =
  vx :: real
  vy :: real
  vz :: real

text \<open>
  The class of a geometry object. \<open>instanceof\<close> follows the library's class hierarchy:
  every geometry is a \<open>BufferGeometry\<close>, and \<open>ConeGeometry\<close> is declared there as
  \<open>class ConeGeometry extends CylinderGeometry\<close>, so a cone is an instance of
  \<open>CylinderGeometry\<close> too.
\<close>

datatype geom_class =
  BufferGeometry | BoxGeometry | SphereGeometry | CylinderGeometry | ConeGeometry | TorusGeometry

definition geom_instanceof :: "geom_class \<Rightarrow> geom_class \<Rightarrow> bool" where
  "geom_instanceof c k =
     (c = k \<or> k = BufferGeometry \<or> (c = ConeGeometry \<and> k = CylinderGeometry))"

text \<open>
  A parameter object (\<open>geometry.parameters\<close>, \<open>geometryParams\<close>, the \<open>parameters\<close> of a
  custom geometry record): the numeric keys the code reads; \<open>None\<close> is a missing key.
\<close>

record params =
  width :: "real option"
  height :: "real option"
  depth :: "real option"
  radius :: "real option"
  widthSegments :: "real option"
  heightSegments :: "real option"
  radiusTop :: "real option"
  radiusBottom :: "real option"
  radialSegments :: "real option"
  tube :: "real option"
  tubularSegments :: "real option"
  arc :: "real option"

definition no_params :: params where
  "no_params = \<lparr>width = None, height = None, depth = None, radius = None,
     widthSegments = None, heightSegments = None, radiusTop = None, radiusBottom = None,
     radialSegments = None, tube = None, tubularSegments = None, arc = None\<rparr>"

text \<open>
  A geometry: its class, its parameter object (absent on a plain \<open>BufferGeometry\<close>), the
  attribute buffers \<open>position\<close>, \<open>normal\<close>, \<open>uv\<close> (absent when never set) and the index.
\<close>

record geometry =
  gclass :: geom_class
  parameters :: "params option"
  position :: "real list option"
  normal :: "real list option"
  uv :: "real list option"
  index :: "nat list option"

record material =
  colorHex :: string
  opacity :: real
  transparent :: bool
  metalness :: real
  roughness :: real

text \<open>
  An \<open>Object3D\<close>. It is a \<open>THREE.Mesh\<close> exactly when it has a geometry; \<open>material\<close> is
  present when the mesh's material is a \<open>MeshStandardMaterial\<close>.
\<close>

record object3d =
  otype :: string
  oposition :: vec3
  orotation :: vec3
  oscale :: vec3
  ovisible :: bool
  omaterial :: "material option"
  ogeometry :: "geometry option"

text \<open>
  A light handle (\<open>THREE.Light\<close>), by the arguments of its constructor and of the
  \<open>position.set\<close> calls made on it.
\<close>

datatype light_class = DirectionalLight | PointLight | SpotLight

record three_light =
  hclass :: light_class
  hcolor :: string
  hintensity :: real
  hdistance :: "real option"
  hangle :: "real option"
  hpenumbra :: "real option"
  hdecay :: "real option"
  hposition :: "real list"
  htarget :: "real list option"
  hcastShadow :: bool
  hvisible :: bool

section \<open>The scene store's state\<close>

text \<open>
  An entry of \<open>objects\<close>. Its \<open>object\<close> is a reference to an \<open>Object3D\<close>: an index into
  the heap of the state, since the store compares these references (\<open>===\<close>) and mutates
  geometry buffers through them.
\<close>

record scene_object =
  oid :: string
  object :: nat
  oname :: string
  visible :: bool
  locked :: bool
  groupId :: "string option"
  firestoreId :: "string option"

record group =
  gid :: string
  gname :: string
  expanded :: bool
  gvisible :: bool
  glocked :: bool
  objectIds :: "string list"
  gfirestoreId :: "string option"

record light =
  lid :: string
  lname :: string
  ltype :: string
  lposition :: "real list"
  ltarget :: "real list"
  intensity :: real
  color :: string
  lvisible :: bool
  castShadow :: bool
  distance :: real
  decay :: real
  angle :: real
  penumbra :: real
  lobject :: "three_light option"
  lfirestoreId :: "string option"

record history_state =
  h_objects :: "scene_object list"
  h_groups :: "group list"
  h_lights :: "light list"

record dragged_vertex =
  indices :: "nat list"
  dposition :: vec3
  initialPosition :: vec3

text \<open>
  The store (\<open>SceneState\<close>) with the heap of \<open>Object3D\<close>s its references point into. The
  fields that none of the operations below reads or writes (camera, scene settings,
  transform and edit mode, placement, edge drag, loading and subscription handles) are
  left out.
\<close>

record scene_state =
  heap :: "object3d list"
  objects :: "scene_object list"
  groups :: "group list"
  lights :: "light list"
  selectedLight :: "light option"
  selectedObject :: "nat option"
  selectedVertices :: "nat list"
  draggedVertex :: "dragged_vertex option"
  history :: "history_state list"
  historyIndex :: int
  canUndo :: bool
  canRedo :: bool
  hasUnsavedChanges :: bool
  currentProjectId :: "string option"
  currentUserId :: "string option"

text \<open>The initial state of \<open>useSceneStore\<close>: an empty scene, no history, index \<open>-1\<close>.\<close>

definition initial_state :: scene_state where
  "initial_state = \<lparr>heap = [], objects = [], groups = [], lights = [],
     selectedLight = None, selectedObject = None, selectedVertices = [],
     draggedVertex = None, history = [], historyIndex = - 1, canUndo = False,
     canRedo = False, hasUnsavedChanges = False, currentProjectId = None,
     currentUserId = None\<rparr>"

definition markUnsavedChanges :: "scene_state \<Rightarrow> scene_state" where
  "markUnsavedChanges state = state\<lparr>hasUnsavedChanges := True\<rparr>"

section \<open>History engine\<close>

text \<open>
  \<open>cloneObject\<close>: a mesh is rebuilt as a new \<open>Mesh\<close> from a clone of its geometry and
  material, with position, rotation and scale copied (the new mesh has the constructor's
  \<open>visible = true\<close>); any other object is cloned whole.
\<close>

definition cloneObject :: "object3d \<Rightarrow> object3d" where
  "cloneObject obj =
     (case ogeometry obj of
        Some g \<Rightarrow> \<lparr>otype = ''Mesh'', oposition = oposition obj, orotation = orotation obj,
                   oscale = oscale obj, ovisible = True, omaterial = omaterial obj,
                   ogeometry = Some g\<rparr>
      | None \<Rightarrow> obj)"

text \<open>
  \<open>state.objects.map(obj => ({...obj, object: cloneObject(obj.object)}))\<close>: every clone is
  a new heap cell. A reference is always live in JavaScript; an index outside the heap
  is kept as it is.
\<close>

fun clone_objects :: "object3d list \<Rightarrow> scene_object list \<Rightarrow> object3d list \<times> scene_object list" where
  "clone_objects h [] = (h, [])"
| "clone_objects h (obj # objs) =
     (if object obj < length h
      then (let (h', objs') = clone_objects (h @ [cloneObject (h ! object obj)]) objs
            in (h', obj\<lparr>object := length h\<rparr> # objs'))
      else (let (h', objs') = clone_objects h objs in (h', obj # objs')))"

text \<open>
  \<open>createLight(type, position, target)\<close>: the handle is built from the type, the position
  and the target alone; colour \<open>'#ffffff'\<close>, intensity \<open>1\<close>, the distance, angle, penumbra
  and decay are constants of the call, and \<open>castShadow\<close> is set to \<open>true\<close>.
\<close>

definition createLight :: "string \<Rightarrow> real list \<Rightarrow> real list \<Rightarrow> three_light" where
  "createLight ty pos target =
     (if ty = ''directional'' then
        \<lparr>hclass = DirectionalLight, hcolor = ''#ffffff'', hintensity = 1, hdistance = None,
         hangle = None, hpenumbra = None, hdecay = None, hposition = pos,
         htarget = Some target, hcastShadow = True, hvisible = True\<rparr>
      else if ty = ''spot'' then
        \<lparr>hclass = SpotLight, hcolor = ''#ffffff'', hintensity = 1, hdistance = Some 0,
         hangle = Some (pi / 3), hpenumbra = Some 0, hdecay = Some 2, hposition = pos,
         htarget = Some target, hcastShadow = True, hvisible = True\<rparr>
      else
        \<lparr>hclass = PointLight, hcolor = ''#ffffff'', hintensity = 1, hdistance = Some 0,
         hangle = None, hpenumbra = None, hdecay = Some 2, hposition = pos,
         htarget = None, hcastShadow = True, hvisible = True\<rparr>)"

text \<open>
  \<open>saveToHistory\<close>: the snapshot holds the cloned objects, the groups and the lights with
  their handle stripped; the snapshots after the index are dropped, the new one is pushed,
  and the first one is shifted out when there are more than 50.
\<close>

definition strip_handle :: "light \<Rightarrow> light" where
  "strip_handle l = l\<lparr>lobject := None\<rparr>"

definition currentState :: "scene_state \<Rightarrow> object3d list \<times> history_state" where
  "currentState state =
     (let (h', objs') = clone_objects (heap state) (objects state)
      in (h', \<lparr>h_objects = objs', h_groups = groups state,
               h_lights = map strip_handle (lights state)\<rparr>))"

definition saveToHistory :: "scene_state \<Rightarrow> scene_state" where
  "saveToHistory state =
     (let (h', snapshot) = currentState state;
          pushed = js_slice0 (history state) (historyIndex state + 1) @ [snapshot];
          newHistory = (if length pushed > 50 then tl pushed else pushed)
      in markUnsavedChanges
           (state\<lparr>heap := h', history := newHistory,
                  historyIndex := int (length newHistory) - 1,
                  canUndo := True, canRedo := False\<rparr>))"

definition restore_light :: "light \<Rightarrow> light" where
  "restore_light l = l\<lparr>lobject := Some (createLight (ltype l) (lposition l) (ltarget l))\<rparr>"

definition undo :: "scene_state \<Rightarrow> js_error + scene_state" where
  "undo state =
     (if historyIndex state \<le> 0 then Inr state
      else case js_index (history state) (historyIndex state - 1) of
        None \<Rightarrow> Inl TypeError
      | Some previousState \<Rightarrow>
          Inr (state\<lparr>objects := h_objects previousState,
                     groups := h_groups previousState,
                     lights := map restore_light (h_lights previousState),
                     historyIndex := historyIndex state - 1,
                     canUndo := (historyIndex state - 1 > 0),
                     canRedo := True,
                     selectedObject := None,
                     selectedLight := None\<rparr>))"

definition redo :: "scene_state \<Rightarrow> js_error + scene_state" where
  "redo state =
     (if historyIndex state \<ge> int (length (history state)) - 1 then Inr state
      else case js_index (history state) (historyIndex state + 1) of
        None \<Rightarrow> Inl TypeError
      | Some nextState \<Rightarrow>
          Inr (state\<lparr>objects := h_objects nextState,
                     groups := h_groups nextState,
                     lights := map restore_light (h_lights nextState),
                     historyIndex := historyIndex state + 1,
                     canUndo := True,
                     canRedo := (historyIndex state + 1 < int (length (history state)) - 1),
                     selectedObject := None,
                     selectedLight := None\<rparr>))"

text \<open>A run of committed edits: each edit changes the scene, then \<open>saveToHistory\<close> commits.\<close>

definition keeps_history :: "(scene_state \<Rightarrow> scene_state) \<Rightarrow> bool" where
  "keeps_history e = (\<forall>s. history (e s) = history s \<and> historyIndex (e s) = historyIndex s)"

fun commits :: "(scene_state \<Rightarrow> scene_state) list \<Rightarrow> scene_state \<Rightarrow> scene_state" where
  "commits [] s = s"
| "commits (e # es) s = commits es (saveToHistory (e s))"

text \<open>The snapshots the run pushes, in order.\<close>

fun snapshots :: "(scene_state \<Rightarrow> scene_state) list \<Rightarrow> scene_state \<Rightarrow> history_state list" where
  "snapshots [] s = []"
| "snapshots (e # es) s =
     snd (currentState (e s)) # snapshots es (saveToHistory (e s))"

fun undo_n :: "nat \<Rightarrow> scene_state \<Rightarrow> js_error + scene_state" where
  "undo_n 0 s = Inr s"
| "undo_n (Suc n) s = (case undo s of Inl e \<Rightarrow> Inl e | Inr s' \<Rightarrow> undo_n n s')"

text \<open>The index points at the last snapshot: nothing to redo.\<close>

definition at_top :: "scene_state \<Rightarrow> bool" where
  "at_top s = (historyIndex s = int (length (history s)) - 1)"

text \<open>An edit for the examples: one more entry in the object list.\<close>

definition an_edit :: "scene_state \<Rightarrow> scene_state" where
  "an_edit s = s\<lparr>objects := objects s @ [\<lparr>oid = ''a'', object = 0, oname = ''Box'',
       visible = True, locked = False, groupId = None, firestoreId = None\<rparr>]\<rparr>"

section \<open>Geometry codec\<close>

text \<open>
  What the codec takes from the rendering library: the buffers a parametric constructor
  generates, the components of the normals \<open>computeVertexNormals\<close> computes, and the hex
  string of a parsed colour. They are parameters of the model.
\<close>

record three_lib =
  tessellate :: "geom_class \<Rightarrow> params \<Rightarrow> real list \<times> real list \<times> real list \<times> nat list option"
  vertexNormal :: "real list \<Rightarrow> nat list option \<Rightarrow> nat \<Rightarrow> real"
  hexOf :: "string \<Rightarrow> string"

text \<open>\<open>a ?? d\<close> and, on numbers, \<open>a || d\<close> (\<open>0\<close> is falsy).\<close>

definition nullish :: "real option \<Rightarrow> real \<Rightarrow> real" where
  "nullish a d = (case a of None \<Rightarrow> d | Some v \<Rightarrow> v)"

definition or_num :: "real option \<Rightarrow> real \<Rightarrow> real" where
  "or_num a d = (case a of None \<Rightarrow> d | Some v \<Rightarrow> if v = 0 then d else v)"

text \<open>
  The library's constructors. An argument that is \<open>undefined\<close> takes the constructor's
  default; \<open>parameters\<close> records the arguments. A cone's \<open>parameters\<close> are
  \<open>radius\<close>, \<open>height\<close>, \<open>radialSegments\<close>, \<open>heightSegments\<close>: it has no \<open>radiusTop\<close>.
\<close>

definition construct :: "three_lib \<Rightarrow> geom_class \<Rightarrow> params \<Rightarrow> geometry" where
  "construct lib c ps =
     (case tessellate lib c ps of (pos, nor, uvs, idx) \<Rightarrow>
        \<lparr>gclass = c, parameters = Some ps, position = Some pos, normal = Some nor,
         uv = Some uvs, index = idx\<rparr>)"

definition new_BoxGeometry :: "three_lib \<Rightarrow> real option \<Rightarrow> real option \<Rightarrow> real option \<Rightarrow> geometry" where
  "new_BoxGeometry lib w h d =
     construct lib BoxGeometry
       (no_params\<lparr>width := Some (nullish w 1), height := Some (nullish h 1),
          depth := Some (nullish d 1), widthSegments := Some 1, heightSegments := Some 1\<rparr>)"

definition new_SphereGeometry :: "three_lib \<Rightarrow> real option \<Rightarrow> real option \<Rightarrow> real option \<Rightarrow> geometry" where
  "new_SphereGeometry lib r ws hs =
     construct lib SphereGeometry
       (no_params\<lparr>radius := Some (nullish r 1), widthSegments := Some (nullish ws 32),
          heightSegments := Some (nullish hs 16)\<rparr>)"

definition new_CylinderGeometry ::
  "three_lib \<Rightarrow> real option \<Rightarrow> real option \<Rightarrow> real option \<Rightarrow> real option \<Rightarrow> geometry" where
  "new_CylinderGeometry lib rt rb h rs =
     construct lib CylinderGeometry
       (no_params\<lparr>radiusTop := Some (nullish rt 1), radiusBottom := Some (nullish rb 1),
          height := Some (nullish h 1), radialSegments := Some (nullish rs 32),
          heightSegments := Some 1\<rparr>)"

definition new_ConeGeometry :: "three_lib \<Rightarrow> real option \<Rightarrow> real option \<Rightarrow> real option \<Rightarrow> geometry" where
  "new_ConeGeometry lib r h rs =
     construct lib ConeGeometry
       (no_params\<lparr>radius := Some (nullish r 1), height := Some (nullish h 1),
          radialSegments := Some (nullish rs 32), heightSegments := Some 1\<rparr>)"

definition new_TorusGeometry :: "three_lib \<Rightarrow> real \<Rightarrow> real \<Rightarrow> real \<Rightarrow> real \<Rightarrow> real \<Rightarrow> geometry" where
  "new_TorusGeometry lib r t rs ts a =
     construct lib TorusGeometry
       (no_params\<lparr>radius := Some r, tube := Some t, radialSegments := Some rs,
          tubularSegments := Some ts, arc := Some a\<rparr>)"

text \<open>
  \<open>geometry.computeVertexNormals()\<close>: nothing without a position attribute; otherwise the
  normal attribute is created with one component per position component (or the existing
  one is overwritten in place) and filled with the computed normals.
\<close>

definition computeVertexNormals :: "three_lib \<Rightarrow> geometry \<Rightarrow> geometry" where
  "computeVertexNormals lib g =
     (case position g of
        None \<Rightarrow> g
      | Some ps \<Rightarrow>
          g\<lparr>normal := Some (map (vertexNormal lib ps (index g))
                    [0 ..< (case normal g of None \<Rightarrow> length ps | Some ns \<Rightarrow> length ns)])\<rparr>)"

text \<open>The persisted record of a custom geometry and of an object (\<open>FirestoreObject\<close>).\<close>

record custom_geometry =
  ctype :: string
  vertices :: "real list option"
  indices_c :: "nat list option"
  normals :: "real list option"
  uvs :: "real list option"
  cparameters :: "params option"

record material_params =
  mp_transparent :: bool
  mp_metalness :: real
  mp_roughness :: real

record firestore_object =
  f_id :: "string option"
  f_userId :: "string option"
  f_projectId :: "string option"
  f_name :: string
  f_type :: string
  f_position :: vec3
  f_rotation :: vec3
  f_scale :: vec3
  f_color :: string
  f_opacity :: real
  f_visible :: bool
  f_locked :: bool
  f_groupId :: "string option"
  geometryParams :: "params option"
  materialParams :: "material_params option"
  customGeometry :: "custom_geometry option"
  createdAt :: bool
  updatedAt :: bool

text \<open>
  \<open>serializeGeometry\<close>: the four buffers as arrays (empty when the attribute is absent)
  and \<open>geometry.parameters || {}\<close>. The record type is filled in by the caller.
\<close>

definition serializeGeometry :: "string \<Rightarrow> geometry \<Rightarrow> custom_geometry" where
  "serializeGeometry ty g =
     \<lparr>ctype = ty,
      vertices = Some (case position g of Some a \<Rightarrow> a | None \<Rightarrow> []),
      indices_c = Some (case index g of Some a \<Rightarrow> a | None \<Rightarrow> []),
      normals = Some (case normal g of Some a \<Rightarrow> a | None \<Rightarrow> []),
      uvs = Some (case uv g of Some a \<Rightarrow> a | None \<Rightarrow> []),
      cparameters = Some (case parameters g of Some ps \<Rightarrow> ps | None \<Rightarrow> no_params)\<rparr>"

text \<open>\<open>a && a.length > 0\<close> on an optional array.\<close>

definition nonempty :: "'a list option \<Rightarrow> bool" where
  "nonempty a = (case a of None \<Rightarrow> False | Some xs \<Rightarrow> xs \<noteq> [])"

text \<open>
  \<open>new THREE.Float32BufferAttribute(array, itemSize)\<close> copies the array into a
  \<open>Float32Array\<close>. \<open>geometry.setIndex(array)\<close> copies it into a \<open>Uint32Array\<close> when some
  index is 65535 or more, and into a \<open>Uint16Array\<close> otherwise; an integer typed array
  stores a number modulo its range.
\<close>

definition Float32BufferAttribute :: "real list \<Rightarrow> real list" where
  "Float32BufferAttribute a = map fround a"

definition setIndex_array :: "nat list \<Rightarrow> nat list" where
  "setIndex_array a =
     (if list_ex (\<lambda>i. 65535 \<le> i) a then map (\<lambda>i. i mod 4294967296) a
      else map (\<lambda>i. i mod 65536) a)"

definition deserializeGeometry :: "three_lib \<Rightarrow> custom_geometry \<Rightarrow> geometry" where
  "deserializeGeometry lib cg =
     (let g0 = \<lparr>gclass = BufferGeometry, parameters = None, position = None,
                 normal = None, uv = None, index = None\<rparr>;
          g1 = (if nonempty (vertices cg)
                then g0\<lparr>position := map_option Float32BufferAttribute (vertices cg)\<rparr> else g0);
          g2 = (if nonempty (normals cg)
                then g1\<lparr>normal := map_option Float32BufferAttribute (normals cg)\<rparr> else g1);
          g3 = (if nonempty (uvs cg)
                then g2\<lparr>uv := map_option Float32BufferAttribute (uvs cg)\<rparr> else g2);
          g4 = (if nonempty (indices_c cg)
                then g3\<lparr>index := map_option setIndex_array (indices_c cg)\<rparr> else g3);
          g5 = (case cparameters cg of Some ps \<Rightarrow> g4\<lparr>parameters := Some ps\<rparr> | None \<Rightarrow> g4)
      in if \<not> nonempty (normals cg) then computeVertexNormals lib g5 else g5)"

text \<open>\<open>name.toLowerCase().includes(customName)\<close>, on ASCII names.\<close>

definition toLowerCase :: "string \<Rightarrow> string" where
  "toLowerCase s =
     map (\<lambda>c. case map_of (zip ''ABCDEFGHIJKLMNOPQRSTUVWXYZ'' ''abcdefghijklmnopqrstuvwxyz'') c of
                None \<Rightarrow> c
              | Some l \<Rightarrow> l) s"

fun starts_with :: "string \<Rightarrow> string \<Rightarrow> bool" where
  "starts_with [] s = True"
| "starts_with (p # ps) [] = False"
| "starts_with (p # ps) (c # cs) = (p = c \<and> starts_with ps cs)"

fun js_includes :: "string \<Rightarrow> string \<Rightarrow> bool" where
  "js_includes [] p = (p = [])"
| "js_includes (c # cs) p = (starts_with p (c # cs) \<or> js_includes cs p)"

definition isCustomGeometry :: "geometry \<Rightarrow> string \<Rightarrow> bool" where
  "isCustomGeometry g name =
     (let nameIsCustom = list_ex (\<lambda>customName. js_includes (toLowerCase name) customName)
                           [''star'', ''heart'', ''torus'', ''custom''];
          isTorusGeometry = geom_instanceof (gclass g) TorusGeometry;
          hasStandardParams = (parameters g \<noteq> None \<and>
             (geom_instanceof (gclass g) BoxGeometry \<or>
              geom_instanceof (gclass g) SphereGeometry \<or>
              geom_instanceof (gclass g) CylinderGeometry \<or>
              geom_instanceof (gclass g) ConeGeometry))
      in nameIsCustom \<or> isTorusGeometry \<or> \<not> hasStandardParams)"

text \<open>
  \<open>objectToFirestore(object, name, id, userId, projectId)\<close>. Reading a field of the
  \<open>parameters\<close> of a torus that has none is the \<open>TypeError\<close>.
\<close>

definition objectToFirestore ::
  "object3d \<Rightarrow> string \<Rightarrow> string option \<Rightarrow> string option \<Rightarrow> string option
     \<Rightarrow> js_error + firestore_object" where
  "objectToFirestore obj name ident userId projectId =
     (let d0 = \<lparr>f_id = (if truthy ident then ident else None),
                 f_userId = (if truthy userId then userId else None),
                 f_projectId = (if truthy projectId then projectId else None),
                 f_name = name, f_type = otype obj,
                 f_position = oposition obj, f_rotation = orotation obj, f_scale = oscale obj,
                 f_color = ''#44aa88'', f_opacity = 1, f_visible = ovisible obj,
                 f_locked = False, f_groupId = None, geometryParams = None,
                 materialParams = None, customGeometry = None,
                 createdAt = (\<not> truthy ident), updatedAt = True\<rparr>;
          d1 = (case (ogeometry obj, omaterial obj) of
                  (Some g, Some m) \<Rightarrow>
                    d0\<lparr>f_color := CHR ''#'' # colorHex m, f_opacity := opacity m,
                       materialParams := Some \<lparr>mp_transparent = transparent m,
                         mp_metalness = metalness m, mp_roughness = roughness m\<rparr>\<rparr>
                | _ \<Rightarrow> d0)
      in case ogeometry obj of
           None \<Rightarrow> Inr d1
         | Some g \<Rightarrow>
             if isCustomGeometry g name then
               (if geom_instanceof (gclass g) TorusGeometry then
                  (case parameters g of
                     None \<Rightarrow> Inl TypeError
                   | Some ps \<Rightarrow>
                       Inr (d1\<lparr>f_type := ''CustomMesh'',
                              customGeometry := Some ((serializeGeometry ''torus'' g)
                                \<lparr>cparameters := Some (no_params\<lparr>radius := radius ps,
                                   tube := tube ps, radialSegments := radialSegments ps,
                                   tubularSegments := tubularSegments ps, arc := arc ps\<rparr>)\<rparr>)\<rparr>))
                else Inr (d1\<lparr>f_type := ''CustomMesh'',
                            customGeometry := Some (serializeGeometry ''custom'' g)\<rparr>))
             else
               (case parameters g of
                  None \<Rightarrow> Inl TypeError
                | Some ps \<Rightarrow>
                    if geom_instanceof (gclass g) BoxGeometry then
                      Inr (d1\<lparr>geometryParams := Some (no_params\<lparr>
                             width := Some (nullish (width ps) 1),
                             height := Some (nullish (height ps) 1),
                             depth := Some (nullish (depth ps) 1)\<rparr>)\<rparr>)
                    else if geom_instanceof (gclass g) SphereGeometry then
                      Inr (d1\<lparr>geometryParams := Some (no_params\<lparr>
                             radius := Some (nullish (radius ps) (1/2)),
                             widthSegments := Some (nullish (widthSegments ps) 32),
                             heightSegments := Some (nullish (heightSegments ps) 16)\<rparr>)\<rparr>)
                    else if geom_instanceof (gclass g) CylinderGeometry then
                      Inr (d1\<lparr>geometryParams := Some (no_params\<lparr>
                             radiusTop := Some (nullish (radiusTop ps) (1/2)),
                             radiusBottom := Some (nullish (radiusBottom ps) (1/2)),
                             height := Some (nullish (height ps) 1),
                             radialSegments := Some (nullish (radialSegments ps) 32)\<rparr>)\<rparr>)
                    else if geom_instanceof (gclass g) ConeGeometry then
                      Inr (d1\<lparr>geometryParams := Some (no_params\<lparr>
                             radius := Some (nullish (radius ps) (1/2)),
                             height := Some (nullish (height ps) 1),
                             radialSegments := Some (nullish (radialSegments ps) 32)\<rparr>)\<rparr>)
                    else
                      Inr (d1\<lparr>f_type := ''CustomMesh'',
                             customGeometry := Some (serializeGeometry ''custom'' g)\<rparr>)))"

text \<open>
  \<open>firestoreToObject(data)\<close>: \<open>null\<close> unless the record's type is \<open>'Mesh'\<close> or
  \<open>'CustomMesh'\<close>. The kind of a parametric record is read off the keys that are defined.
\<close>

definition geometry_of_record :: "three_lib \<Rightarrow> firestore_object \<Rightarrow> geometry" where
  "geometry_of_record lib d =
     (case customGeometry d of
        Some cg \<Rightarrow>
          (case (ctype cg = ''torus'', cparameters cg) of
             (True, Some ps) \<Rightarrow>
               new_TorusGeometry lib (or_num (radius ps) 1) (or_num (tube ps) (4/10))
                 (or_num (radialSegments ps) 8) (or_num (tubularSegments ps) 16)
                 (or_num (arc ps) (pi * 2))
           | _ \<Rightarrow> deserializeGeometry lib cg)
      | None \<Rightarrow>
          (case geometryParams d of
             Some gp \<Rightarrow>
               if width gp \<noteq> None then
                 new_BoxGeometry lib (width gp) (height gp) (depth gp)
               else if radius gp \<noteq> None \<and> widthSegments gp \<noteq> None then
                 new_SphereGeometry lib (radius gp) (widthSegments gp) (heightSegments gp)
               else if radiusTop gp \<noteq> None then
                 new_CylinderGeometry lib (radiusTop gp) (radiusBottom gp) (height gp)
                   (radialSegments gp)
               else if radius gp \<noteq> None \<and> radialSegments gp \<noteq> None then
                 new_ConeGeometry lib (radius gp) (height gp) (radialSegments gp)
               else new_BoxGeometry lib (Some 1) (Some 1) (Some 1)
           | None \<Rightarrow> new_BoxGeometry lib (Some 1) (Some 1) (Some 1)))"

definition firestoreToObject :: "three_lib \<Rightarrow> firestore_object \<Rightarrow> object3d option" where
  "firestoreToObject lib d =
     (if f_type d = ''Mesh'' \<or> f_type d = ''CustomMesh'' then
        (let m0 = \<lparr>colorHex = hexOf lib (f_color d), opacity = f_opacity d,
                    transparent = (f_opacity d < 1), metalness = 0, roughness = 1\<rparr>;
             m = (case materialParams d of
                    None \<Rightarrow> m0
                  | Some mp \<Rightarrow> m0\<lparr>transparent := mp_transparent mp,
                       metalness := mp_metalness mp, roughness := mp_roughness mp\<rparr>)
         in Some \<lparr>otype = ''Mesh'', oposition = f_position d, orotation = f_rotation d,
                   oscale = f_scale d, ovisible = f_visible d, omaterial = Some m,
                   ogeometry = Some (geometry_of_record lib d)\<rparr>)
      else None)"

text \<open>The parametric record of each kind, with every field present.\<close>

definition box_params :: "real \<Rightarrow> real \<Rightarrow> real \<Rightarrow> params" where
  "box_params w h d = no_params\<lparr>width := Some w, height := Some h, depth := Some d\<rparr>"

definition sphere_params :: "real \<Rightarrow> real \<Rightarrow> real \<Rightarrow> params" where
  "sphere_params r ws hs =
     no_params\<lparr>radius := Some r, widthSegments := Some ws, heightSegments := Some hs\<rparr>"

definition cylinder_params :: "real \<Rightarrow> real \<Rightarrow> real \<Rightarrow> real \<Rightarrow> params" where
  "cylinder_params rt rb h rs =
     no_params\<lparr>radiusTop := Some rt, radiusBottom := Some rb, height := Some h,
       radialSegments := Some rs\<rparr>"

definition cone_params :: "real \<Rightarrow> real \<Rightarrow> real \<Rightarrow> params" where
  "cone_params r h rs =
     no_params\<lparr>radius := Some r, height := Some h, radialSegments := Some rs\<rparr>"

text \<open>
  The round trip of the claim: the record is deserialised to a mesh, the mesh is
  serialised under the record's name, and the parametric part of the result is read.
\<close>

definition reserialize :: "three_lib \<Rightarrow> firestore_object \<Rightarrow> (js_error + firestore_object) option" where
  "reserialize lib d =
     (case firestoreToObject lib d of
        None \<Rightarrow> None
      | Some obj \<Rightarrow> Some (objectToFirestore obj (f_name d) (f_id d) (f_userId d) (f_projectId d)))"

definition roundtrip_params :: "three_lib \<Rightarrow> firestore_object \<Rightarrow> params option" where
  "roundtrip_params lib d =
     (case reserialize lib d of
        Some (Inr d') \<Rightarrow> geometryParams d'
      | _ \<Rightarrow> None)"

section \<open>Write-back and asynchronous operations\<close>

text \<open>
  The calls on the persistence gateway that the operations below make, with the fields
  they send, and the outcome of a call: the promise rejects, or resolves (for a save,
  with the id the gateway assigned).
\<close>

datatype object_patch =
  PatchVisible bool | PatchLocked bool | PatchName string | PatchGroupId "string option"

datatype group_patch = PatchObjectIds "string list"

datatype gateway_call =
    SaveObject firestore_object string string
  | UpdateObject string object_patch string string
  | DeleteObject string string
  | UpdateGroup string group_patch string string

datatype outcome = Rejected | Resolved string

text \<open>
  An \<open>async\<close> operation runs synchronously up to its first \<open>await\<close>. \<open>Await s c k\<close> is the
  operation suspended on the gateway call \<open>c\<close> with the store in state \<open>s\<close>; \<open>k\<close> resumes
  it with the outcome of the call and the state of the store at that moment.
  \<open>ConsoleError\<close> is a \<open>console.error\<close> in a \<open>catch\<close> block, \<open>SetTimeout\<close> the deferred
  \<open>setTimeout(() => get().saveToHistory(), 0)\<close>, \<open>Done\<close> the end, with the store's state.
\<close>

datatype task =
    Done scene_state
  | Await scene_state gateway_call "outcome \<Rightarrow> scene_state \<Rightarrow> task"
  | ConsoleError task
  | SetTimeout task

text \<open>The \<open>catch\<close> of a \<open>try { await ... } catch (error) { console.error(...) }\<close>.\<close>

definition on_outcome :: "outcome \<Rightarrow> task \<Rightarrow> task" where
  "on_outcome out t = (case out of Rejected \<Rightarrow> ConsoleError t | Resolved r \<Rightarrow> t)"

text \<open>
  Running an operation to its end with no other operation in between: the gateway \<open>gw\<close>
  decides every call. \<open>final\<close> is the store's state at the end, \<open>write_backs\<close> the calls
  made, \<open>errors_logged\<close> the number of \<open>console.error\<close>s, \<open>pending\<close> the state of the store
  and the call at the first \<open>await\<close>.
\<close>

primrec final :: "(gateway_call \<Rightarrow> outcome) \<Rightarrow> task \<Rightarrow> scene_state" where
  "final gw (Done s) = s"
| "final gw (Await s c k) = final gw (k (gw c) s)"
| "final gw (ConsoleError t) = final gw t"
| "final gw (SetTimeout t) = final gw t"


primrec errors_logged :: "(gateway_call \<Rightarrow> outcome) \<Rightarrow> task \<Rightarrow> nat" where
  "errors_logged gw (Done s) = 0"
| "errors_logged gw (Await s c k) = errors_logged gw (k (gw c) s)"
| "errors_logged gw (ConsoleError t) = Suc (errors_logged gw t)"
| "errors_logged gw (SetTimeout t) = errors_logged gw t"

primrec pending :: "task \<Rightarrow> (scene_state \<times> gateway_call) option" where
  "pending (Done s) = None"
| "pending (Await s c k) = Some (s, c)"
| "pending (ConsoleError t) = pending t"
| "pending (SetTimeout t) = pending t"

definition str_of :: "string option \<Rightarrow> string" where
  "str_of v = (case v of None \<Rightarrow> [] | Some s \<Rightarrow> s)"

text \<open>
  The check the object mutations share:
  \<open>if (obj.groupId) { const group = state.groups.find(g => g.id === obj.groupId); if (group?.locked) return; }\<close>
\<close>

definition in_locked_group :: "scene_state \<Rightarrow> scene_object \<Rightarrow> bool" where
  "in_locked_group state obj =
     (truthy (groupId obj) \<and>
      (case find (\<lambda>g. Some (gid g) = groupId obj) (groups state) of
         None \<Rightarrow> False
       | Some g \<Rightarrow> glocked g))"

definition isObjectLocked :: "scene_state \<Rightarrow> string \<Rightarrow> bool" where
  "isObjectLocked state objectId =
     (case find (\<lambda>obj. oid obj = objectId) (objects state) of
        None \<Rightarrow> False
      | Some obj \<Rightarrow>
          if locked obj then True
          else if truthy (groupId obj) then
            (case find (\<lambda>g. Some (gid g) = groupId obj) (groups state) of
               None \<Rightarrow> False
             | Some g \<Rightarrow> glocked g)
          else False)"

text \<open>
  \<open>addObject(object, name)\<close>; \<open>newId\<close> is the value of \<open>crypto.randomUUID()\<close>. The object is
  appended to the local list, then the record is saved when there is a project context.
\<close>

definition addObject :: "nat \<Rightarrow> string \<Rightarrow> string \<Rightarrow> scene_state \<Rightarrow> task" where
  "addObject obj name newId state =
     (let newObject = \<lparr>oid = newId, object = obj, oname = name, visible = True,
                       locked = False, groupId = None, firestoreId = None\<rparr>;
          s1 = state\<lparr>objects := objects state @ [newObject]\<rparr>
      in if truthy (currentProjectId state) \<and> truthy (currentUserId state) then
           (case (if obj < length (heap state)
                  then objectToFirestore (heap state ! obj) name None
                         (currentUserId state) (currentProjectId state)
                  else Inl TypeError) of
              Inl e \<Rightarrow> ConsoleError (SetTimeout (Done s1))
            | Inr firestoreData \<Rightarrow>
                Await s1
                  (SaveObject (firestoreData\<lparr>f_visible := True, f_locked := False\<rparr>)
                     (str_of (currentUserId state)) (str_of (currentProjectId state)))
                  (\<lambda>out cur.
                     case out of
                       Rejected \<Rightarrow> ConsoleError (SetTimeout (Done cur))
                     | Resolved fid \<Rightarrow>
                         SetTimeout (Done (cur\<lparr>objects :=
                           map (\<lambda>ob. if oid ob = newId then ob\<lparr>firestoreId := Some fid\<rparr> else ob)
                             (objects cur)\<rparr>))))
         else SetTimeout (Done s1))"

text \<open>
  \<open>removeObject(id)\<close>: the delete is awaited first; the local removal that follows is
  computed from the state read at the start.
\<close>

definition removeObject :: "string \<Rightarrow> scene_state \<Rightarrow> task" where
  "removeObject ident state =
     (case find (\<lambda>obj. oid obj = ident) (objects state) of
        None \<Rightarrow> Done state
      | Some objectToRemove \<Rightarrow>
          if locked objectToRemove then Done state
          else if in_locked_group state objectToRemove then Done state
          else
            (let rest = (\<lambda>cur. SetTimeout (Done (cur\<lparr>
                    objects := filter (\<lambda>obj. oid obj \<noteq> ident) (objects state),
                    groups := map (\<lambda>g. g\<lparr>objectIds :=
                                filter (\<lambda>objId. objId \<noteq> ident) (objectIds g)\<rparr>) (groups state),
                    selectedObject :=
                      (if Some (object objectToRemove) = selectedObject state then None
                       else selectedObject state)\<rparr>)))
             in if truthy (firestoreId objectToRemove) \<and> truthy (currentProjectId state)
                then Await state
                       (DeleteObject (str_of (firestoreId objectToRemove))
                          (str_of (currentProjectId state)))
                       (\<lambda>out cur. on_outcome out (rest cur))
                else rest state))"

definition toggleVisibility :: "string \<Rightarrow> scene_state \<Rightarrow> task" where
  "toggleVisibility ident state =
     (case find (\<lambda>obj. oid obj = ident) (objects state) of
        None \<Rightarrow> Done state
      | Some objectToToggle \<Rightarrow>
          if locked objectToToggle then Done state
          else if in_locked_group state objectToToggle then Done state
          else
            (let newVisibility = (\<not> visible objectToToggle);
                 updatedObjects = map (\<lambda>obj. if oid obj = ident
                                    then obj\<lparr>visible := newVisibility\<rparr> else obj) (objects state);
                 newSelectedObject =
                   (case find (\<lambda>obj. oid obj = ident) updatedObjects of
                      None \<Rightarrow> selectedObject state
                    | Some toggledObject \<Rightarrow>
                        if \<not> visible toggledObject \<and>
                           Some (object toggledObject) = selectedObject state
                        then None else selectedObject state);
                 rest = (\<lambda>cur. Done (markUnsavedChanges
                           (cur\<lparr>objects := updatedObjects, selectedObject := newSelectedObject\<rparr>)))
             in if truthy (firestoreId objectToToggle) \<and> truthy (currentProjectId state)
                   \<and> truthy (currentUserId state)
                then Await state
                       (UpdateObject (str_of (firestoreId objectToToggle))
                          (PatchVisible newVisibility)
                          (str_of (currentUserId state)) (str_of (currentProjectId state)))
                       (\<lambda>out cur. on_outcome out (rest cur))
                else rest state))"

definition toggleLock :: "string \<Rightarrow> scene_state \<Rightarrow> task" where
  "toggleLock ident state =
     (case find (\<lambda>obj. oid obj = ident) (objects state) of
        None \<Rightarrow> Done state
      | Some objectToToggle \<Rightarrow>
          if in_locked_group state objectToToggle then Done state
          else
            (let newLockState = (\<not> locked objectToToggle);
                 updatedObjects = map (\<lambda>obj. if oid obj = ident
                                    then obj\<lparr>locked := newLockState\<rparr> else obj) (objects state);
                 newSelectedObject =
                   (case find (\<lambda>obj. oid obj = ident) updatedObjects of
                      None \<Rightarrow> selectedObject state
                    | Some toggledObject \<Rightarrow>
                        if locked toggledObject \<and>
                           Some (object toggledObject) = selectedObject state
                        then None else selectedObject state);
                 rest = (\<lambda>cur. Done (markUnsavedChanges
                           (cur\<lparr>objects := updatedObjects, selectedObject := newSelectedObject\<rparr>)))
             in if truthy (firestoreId objectToToggle) \<and> truthy (currentProjectId state)
                   \<and> truthy (currentUserId state)
                then Await state
                       (UpdateObject (str_of (firestoreId objectToToggle))
                          (PatchLocked newLockState)
                          (str_of (currentUserId state)) (str_of (currentProjectId state)))
                       (\<lambda>out cur. on_outcome out (rest cur))
                else rest state))"

definition updateObjectName :: "string \<Rightarrow> string \<Rightarrow> scene_state \<Rightarrow> task" where
  "updateObjectName ident name state =
     (case find (\<lambda>obj. oid obj = ident) (objects state) of
        None \<Rightarrow> Done state
      | Some objectToUpdate \<Rightarrow>
          if locked objectToUpdate then Done state
          else if in_locked_group state objectToUpdate then Done state
          else
            (let rest = (\<lambda>cur. Done (markUnsavedChanges (cur\<lparr>objects :=
                           map (\<lambda>obj. if oid obj = ident then obj\<lparr>oname := name\<rparr> else obj)
                             (objects state)\<rparr>)))
             in if truthy (firestoreId objectToUpdate) \<and> truthy (currentProjectId state)
                   \<and> truthy (currentUserId state)
                then Await state
                       (UpdateObject (str_of (firestoreId objectToUpdate)) (PatchName name)
                          (str_of (currentUserId state)) (str_of (currentProjectId state)))
                       (\<lambda>out cur. on_outcome out (rest cur))
                else rest state))"

section \<open>Group membership\<close>

text \<open>
  \<open>addObjectToGroup(objectId, groupId)\<close>: the object's \<open>groupId\<close> is set and the id is
  appended to the target group's \<open>objectIds\<close>; both local lists change in one \<open>set\<close>, then
  the object and the group are written back, each in its own \<open>try\<close>.
\<close>

definition addObjectToGroup :: "string \<Rightarrow> string \<Rightarrow> scene_state \<Rightarrow> task" where
  "addObjectToGroup objectId groupId' state =
     (let objectToMove = find (\<lambda>obj. oid obj = objectId) (objects state);
          targetGroup = find (\<lambda>g. gid g = groupId') (groups state)
      in if (case objectToMove of None \<Rightarrow> False | Some obj \<Rightarrow> locked obj) \<or>
            (case targetGroup of None \<Rightarrow> False | Some g \<Rightarrow> glocked g)
         then Done state
         else
           (let updatedObjects = map (\<lambda>obj. if oid obj = objectId
                                   then obj\<lparr>groupId := Some groupId'\<rparr> else obj) (objects state);
                updatedGroups = map (\<lambda>g. if gid g = groupId'
                                   then g\<lparr>objectIds := objectIds g @ [objectId]\<rparr> else g)
                                  (groups state);
                s1 = state\<lparr>objects := updatedObjects, groups := updatedGroups\<rparr>;
                context = (truthy (currentProjectId state) \<and> truthy (currentUserId state));
                step2 = (\<lambda>cur.
                  case targetGroup of
                    None \<Rightarrow> Done (markUnsavedChanges cur)
                  | Some g \<Rightarrow>
                      if truthy (gfirestoreId g) \<and> context then
                        Await cur
                          (UpdateGroup (str_of (gfirestoreId g))
                             (PatchObjectIds (objectIds g @ [objectId]))
                             (str_of (currentUserId state)) (str_of (currentProjectId state)))
                          (\<lambda>out cur'. on_outcome out (Done (markUnsavedChanges cur')))
                      else Done (markUnsavedChanges cur))
            in case objectToMove of
                 None \<Rightarrow> step2 s1
               | Some obj \<Rightarrow>
                   if truthy (firestoreId obj) \<and> context then
                     Await s1
                       (UpdateObject (str_of (firestoreId obj)) (PatchGroupId (Some groupId'))
                          (str_of (currentUserId state)) (str_of (currentProjectId state)))
                       (\<lambda>out cur. on_outcome out (step2 cur))
                   else step2 s1))"

definition removeObjectFromGroup :: "string \<Rightarrow> scene_state \<Rightarrow> task" where
  "removeObjectFromGroup objectId state =
     (case find (\<lambda>ob. oid ob = objectId) (objects state) of
        None \<Rightarrow> Done state
      | Some obj \<Rightarrow>
          if \<not> truthy (groupId obj) then Done state
          else
            (let grp = find (\<lambda>g. Some (gid g) = groupId obj) (groups state)
             in if locked obj \<or> (case grp of None \<Rightarrow> False | Some g \<Rightarrow> glocked g)
                then Done state
                else
                  (let updatedObjects = map (\<lambda>ob. if oid ob = objectId
                                          then ob\<lparr>groupId := None\<rparr> else ob) (objects state);
                       updatedGroups = map (\<lambda>g. if Some (gid g) = groupId obj
                                          then g\<lparr>objectIds :=
                                                 filter (\<lambda>i. i \<noteq> objectId) (objectIds g)\<rparr>
                                          else g) (groups state);
                       s1 = state\<lparr>objects := updatedObjects, groups := updatedGroups\<rparr>;
                       context = (truthy (currentProjectId state) \<and> truthy (currentUserId state));
                       step2 = (\<lambda>cur.
                         case grp of
                           None \<Rightarrow> Done (markUnsavedChanges cur)
                         | Some g \<Rightarrow>
                             if truthy (gfirestoreId g) \<and> context then
                               Await cur
                                 (UpdateGroup (str_of (gfirestoreId g))
                                    (PatchObjectIds (filter (\<lambda>i. i \<noteq> objectId) (objectIds g)))
                                    (str_of (currentUserId state))
                                    (str_of (currentProjectId state)))
                                 (\<lambda>out cur'. on_outcome out (Done (markUnsavedChanges cur')))
                             else Done (markUnsavedChanges cur))
                   in if truthy (firestoreId obj) \<and> context then
                        Await s1
                          (UpdateObject (str_of (firestoreId obj)) (PatchGroupId None)
                             (str_of (currentUserId state)) (str_of (currentProjectId state)))
                          (\<lambda>out cur. on_outcome out (step2 cur))
                      else step2 s1)))"

text \<open>
  The write-backs of \<open>moveObjectsToGroup\<close>: one \<open>updateObject\<close> for every moved object
  that has a persisted id, each in its own \<open>try\<close>, all awaited together; the objects are
  looked up in the state read at the start.
\<close>

fun move_write_backs ::
  "scene_state \<Rightarrow> string option \<Rightarrow> string list \<Rightarrow> scene_state \<Rightarrow> task" where
  "move_write_backs state groupId' [] cur = Done (markUnsavedChanges cur)"
| "move_write_backs state groupId' (objectId # rest) cur =
     (case find (\<lambda>ob. oid ob = objectId) (objects state) of
        None \<Rightarrow> move_write_backs state groupId' rest cur
      | Some obj \<Rightarrow>
          if truthy (firestoreId obj) then
            Await cur
              (UpdateObject (str_of (firestoreId obj)) (PatchGroupId groupId')
                 (str_of (currentUserId state)) (str_of (currentProjectId state)))
              (\<lambda>out cur'. on_outcome out (move_write_backs state groupId' rest cur'))
          else move_write_backs state groupId' rest cur)"

definition moveObjectsToGroup :: "string list \<Rightarrow> string option \<Rightarrow> scene_state \<Rightarrow> task" where
  "moveObjectsToGroup ids groupId' state =
     (let lockedObjects = filter (\<lambda>i.
            case find (\<lambda>ob. oid ob = i) (objects state) of
              None \<Rightarrow> False
            | Some obj \<Rightarrow> locked obj \<or> in_locked_group state obj) ids
      in if lockedObjects \<noteq> [] then Done state
         else if truthy groupId' \<and>
                 (case find (\<lambda>g. Some (gid g) = groupId') (groups state) of
                    None \<Rightarrow> False
                  | Some g \<Rightarrow> glocked g)
         then Done state
         else
           (let updatedGroups = map (\<lambda>g. g\<lparr>objectIds :=
                                  filter (\<lambda>i. i \<notin> set ids) (objectIds g)\<rparr>) (groups state);
                finalGroups = (if truthy groupId'
                               then map (\<lambda>g. if Some (gid g) = groupId'
                                              then g\<lparr>objectIds := objectIds g @ ids\<rparr> else g)
                                      updatedGroups
                               else updatedGroups);
                updatedObjects = map (\<lambda>obj. if oid obj \<in> set ids
                                   then obj\<lparr>groupId := groupId'\<rparr> else obj) (objects state);
                s1 = state\<lparr>groups := finalGroups, objects := updatedObjects\<rparr>
            in if truthy (currentProjectId state) \<and> truthy (currentUserId state)
               then move_write_backs state groupId' ids s1
               else Done (markUnsavedChanges s1)))"

text \<open>
  The invariant of the data model: an object's \<open>groupId\<close> is a group's id exactly when the
  object's id is in that group's \<open>objectIds\<close>.
\<close>

definition bidirectional :: "scene_state \<Rightarrow> bool" where
  "bidirectional state =
     list_all (\<lambda>obj. list_all (\<lambda>g. (groupId obj = Some (gid g)) = (oid obj \<in> set (objectIds g)))
                        (groups state))
       (objects state)"

section \<open>Mesh edit engine: vertex drag\<close>












section \<open>Scenarios\<close>

text \<open>
  What \<open>updateLight\<close> writes into a light's handle from the light's record: intensity,
  colour, visibility, \<open>castShadow\<close> and position, then the fields of the light's type.
\<close>

definition sync_handle :: "light \<Rightarrow> three_light \<Rightarrow> three_light" where
  "sync_handle l h =
     (let h1 = h\<lparr>hintensity := intensity l, hcolor := color l, hvisible := lvisible l,
                 hcastShadow := castShadow l, hposition := lposition l\<rparr>
      in if ltype l = ''directional'' \<and> hclass h = DirectionalLight then
           h1\<lparr>htarget := Some (ltarget l)\<rparr>
         else if ltype l = ''point'' \<and> hclass h = PointLight then
           h1\<lparr>hdistance := Some (distance l), hdecay := Some (decay l)\<rparr>
         else if ltype l = ''spot'' \<and> hclass h = SpotLight then
           h1\<lparr>htarget := Some (ltarget l), hdistance := Some (distance l),
              hdecay := Some (decay l), hangle := Some (angle l),
              hpenumbra := Some (penumbra l)\<rparr>
         else h1)"

text \<open>A light whose handle carries the light's persisted parameters.\<close>

definition handle_in_sync :: "light \<Rightarrow> bool" where
  "handle_in_sync l = (case lobject l of None \<Rightarrow> False | Some h \<Rightarrow> sync_handle l h = h)"

text \<open>A store with two snapshots and the index on the second; the first holds a light.\<close>

definition dim_light :: light where
  "dim_light = \<lparr>lid = ''l1'', lname = ''Point Light 1'', ltype = ''point'',
     lposition = [2, 2, 2], ltarget = [0, 0, 0], intensity = 5, color = ''#ff0000'',
     lvisible = False, castShadow = False, distance = 10, decay = 2, angle = pi / 3,
     penumbra = 0, lobject = None, lfirestoreId = None\<rparr>"

definition lit_history :: scene_state where
  "lit_history = initial_state\<lparr>
     history := [\<lparr>h_objects = [], h_groups = [], h_lights = [dim_light]\<rparr>,
                 \<lparr>h_objects = [], h_groups = [], h_lights = []\<rparr>],
     historyIndex := 1, canUndo := True\<rparr>"

text \<open>
  The end-to-end scenario: an empty scene in a project, the unit box \<open>A\<close> created by
  \<open>addObject\<close> with the save resolving to \<open>doc-1\<close>, then the deferred commit.
\<close>

definition unit_box :: "three_lib \<Rightarrow> object3d" where
  "unit_box lib = \<lparr>otype = ''Mesh'', oposition = \<lparr>vx = 0, vy = 0, vz = 0\<rparr>,
     orotation = \<lparr>vx = 0, vy = 0, vz = 0\<rparr>, oscale = \<lparr>vx = 1, vy = 1, vz = 1\<rparr>,
     ovisible = True,
     omaterial = Some \<lparr>colorHex = ''44aa88'', opacity = 1, transparent = False,
                       metalness = 0, roughness = 1\<rparr>,
     ogeometry = Some (new_BoxGeometry lib (Some 1) (Some 1) (Some 1))\<rparr>"

definition empty_scene :: "three_lib \<Rightarrow> scene_state" where
  "empty_scene lib = initial_state\<lparr>heap := [unit_box lib],
     currentProjectId := Some ''p1'', currentUserId := Some ''u1''\<rparr>"

definition created_A :: "three_lib \<Rightarrow> scene_state" where
  "created_A lib =
     saveToHistory (final (\<lambda>c. Resolved ''doc-1'') (addObject 0 ''A'' ''id-A'' (empty_scene lib)))"

text \<open>
  A store with a locked object outside any group and an unlocked object in a locked group.
\<close>

definition locked_scene :: scene_state where
  "locked_scene = initial_state\<lparr>
     objects := [\<lparr>oid = ''o1'', object = 0, oname = ''Box'', visible = True, locked = True,
                  groupId = None, firestoreId = Some ''doc-1''\<rparr>,
                 \<lparr>oid = ''o2'', object = 1, oname = ''Ball'', visible = True, locked = False,
                  groupId = Some ''g1'', firestoreId = Some ''doc-2''\<rparr>],
     groups := [\<lparr>gid = ''g1'', gname = ''Group'', expanded = True, gvisible = True,
                 glocked = True, objectIds = [''o2''], gfirestoreId = None\<rparr>],
     currentProjectId := Some ''p1'', currentUserId := Some ''u1''\<rparr>"

text \<open>A store with two unlocked groups and an object that is a member of the first.\<close>

definition two_groups :: scene_state where
  "two_groups = initial_state\<lparr>
     objects := [\<lparr>oid = ''o1'', object = 0, oname = ''Box'', visible = True, locked = False,
                  groupId = Some ''g1'', firestoreId = None\<rparr>],
     groups := [\<lparr>gid = ''g1'', gname = ''First'', expanded = True, gvisible = True,
                 glocked = False, objectIds = [''o1''], gfirestoreId = None\<rparr>,
                \<lparr>gid = ''g2'', gname = ''Second'', expanded = True, gvisible = True,
                 glocked = False, objectIds = [], gfirestoreId = None\<rparr>]\<rparr>"





text \<open>A persisted record of a mesh with the given name and parametric geometry.\<close>

definition parametric_record :: "string \<Rightarrow> params \<Rightarrow> firestore_object" where
  "parametric_record name ps =
     \<lparr>f_id = Some ''doc-1'', f_userId = Some ''u1'', f_projectId = Some ''p1'',
      f_name = name, f_type = ''Mesh'',
      f_position = \<lparr>vx = 0, vy = 0, vz = 0\<rparr>, f_rotation = \<lparr>vx = 0, vy = 0, vz = 0\<rparr>,
      f_scale = \<lparr>vx = 1, vy = 1, vz = 1\<rparr>, f_color = ''#44aa88'', f_opacity = 1,
      f_visible = True, f_locked = False, f_groupId = None, geometryParams = Some ps,
      materialParams = Some \<lparr>mp_transparent = False, mp_metalness = 0, mp_roughness = 1\<rparr>,
      customGeometry = None, createdAt = True, updatedAt = True\<rparr>"

text \<open>A record that \<open>firestoreToObject\<close> turns into a mesh from its \<open>geometryParams\<close>.\<close>

definition is_mesh_record :: "firestore_object \<Rightarrow> bool" where
  "is_mesh_record d = ((f_type d = ''Mesh'' \<or> f_type d = ''CustomMesh'') \<and> customGeometry d = None)"



section \<open>The write-back policy\<close>























section \<open>Properties of the history engine\<close>

lemma drop_last_window:
  "drop (length (drop (length xs - k) xs @ ys) - k) (drop (length xs - k) xs @ ys)
   = drop (length (xs @ ys) - k) (xs @ ys)"
proof (cases "length xs \<le> k")
  case True
  then show ?thesis by simp
next
  case False
  then have "length (drop (length xs - k) xs) = k" by simp
  then show ?thesis using False by (simp add: drop_append add.commute) 
qed

lemma saveToHistory_pushed:
  "at_top s \<Longrightarrow> history (saveToHistory s) =
     (if length (history s @ [snd (currentState s)]) > 50
      then tl (history s @ [snd (currentState s)]) else history s @ [snd (currentState s)])"
  by (simp add: saveToHistory_def markUnsavedChanges_def js_slice0_def Let_def at_top_def
      split: prod.splits)

lemma saveToHistory_history:
  assumes "at_top s" "length (history s) \<le> 50"
  shows "history (saveToHistory s) =
         drop (length (history s @ [snd (currentState s)]) - 50)
           (history s @ [snd (currentState s)])"
proof (cases "length (history s) = 50")
  case True
  then have "history s \<noteq> []" by auto
  then have "tl (history s @ [snd (currentState s)]) = drop 1 (history s @ [snd (currentState s)])"
    by (cases "history s") simp_all
  then show ?thesis using True saveToHistory_pushed[OF assms(1)] by simp
next
  case False
  then show ?thesis using assms(2) saveToHistory_pushed[OF assms(1)] by simp
qed

lemma saveToHistory_at_top: "at_top (saveToHistory s)"
  by (auto simp: saveToHistory_def markUnsavedChanges_def js_slice0_def Let_def at_top_def
      split: prod.splits)

lemma commits_history:
  "at_top s \<Longrightarrow> length (history s) \<le> 50 \<Longrightarrow> list_all keeps_history es \<Longrightarrow>
   history (commits es s) = drop (length (history s @ snapshots es s) - 50) (history s @ snapshots es s)
   \<and> at_top (commits es s)"
proof (induction es arbitrary: s)
  case Nil
  then show ?case by simp
next
  case (Cons e es)
  let ?s1 = "saveToHistory (e s)"
  from Cons.prems have ke: "history (e s) = history s" "historyIndex (e s) = historyIndex s"
    by (simp_all add: keeps_history_def)
  then have top: "at_top (e s)" using Cons.prems(1) by (simp add: at_top_def)
  have len: "length (history (e s)) \<le> 50" using ke Cons.prems(2) by simp
  have h1: "history ?s1 = drop (length (history s @ [snd (currentState (e s))]) - 50)
           (history s @ [snd (currentState (e s))])"
    using saveToHistory_history[OF top len] ke by simp
  have len1: "length (history ?s1) \<le> 50" using h1 by simp
  have IH: "history (commits es ?s1) = drop (length (history ?s1 @ snapshots es ?s1) - 50) (history ?s1 @ snapshots es ?s1)
   \<and> at_top (commits es ?s1)"
    using Cons.IH[OF saveToHistory_at_top len1] Cons.prems(3) by simp
  show ?case
    using IH h1 drop_last_window[of "history s @ [snd (currentState (e s))]" 50 "snapshots es ?s1"]
    by simp
qed

lemma length_snapshots: "length (snapshots es s) = length es"
  by (induction es arbitrary: s) auto


lemma undo_step:
  assumes "0 < historyIndex s" "historyIndex s \<le> int (length (history s))"
  shows "\<exists>s'. undo s = Inr s' \<and> history s' = history s \<and> historyIndex s' = historyIndex s - 1
      \<and> objects s' = h_objects (history s ! nat (historyIndex s - 1))"
  using assms by (auto simp: undo_def js_index_def)

lemma undo_n_steps:
  "int k \<le> historyIndex s \<Longrightarrow> historyIndex s \<le> int (length (history s)) \<Longrightarrow>
   \<exists>s'. undo_n k s = Inr s' \<and> history s' = history s \<and> historyIndex s' = historyIndex s - int k
      \<and> (0 < k \<longrightarrow> objects s' = h_objects (history s ! nat (historyIndex s - int k)))"
proof (induction k arbitrary: s)
  case 0
  then show ?case by simp
next
  case (Suc k)
  then have "0 < historyIndex s" by simp
  from undo_step[OF this Suc.prems(2)] obtain s1 where
    s1: "undo s = Inr s1" "history s1 = history s" "historyIndex s1 = historyIndex s - 1"
      "objects s1 = h_objects (history s ! nat (historyIndex s - 1))" by blast
  have "int k \<le> historyIndex s1" "historyIndex s1 \<le> int (length (history s1))"
    using s1 Suc.prems by simp_all
  from Suc.IH[OF this] obtain s' where
    s': "undo_n k s1 = Inr s'" "history s' = history s1" "historyIndex s' = historyIndex s1 - int k"
      "0 < k \<longrightarrow> objects s' = h_objects (history s1 ! nat (historyIndex s1 - int k))" by blast
  have idx: "historyIndex s1 - int k = historyIndex s - int (Suc k)" using s1 by simp
  have run: "undo_n (Suc k) s = Inr s'" using s1(1) s'(1) by simp
  have hist: "history s' = history s" using s'(2) s1(2) by simp
  have pos: "historyIndex s' = historyIndex s - int (Suc k)" by (rule trans[OF s'(3) idx])
  have objs: "objects s' = h_objects (history s ! nat (historyIndex s - int (Suc k)))"
  proof (cases k)
    case 0
    then have "s' = s1" using s'(1) by simp
    then show ?thesis using s1(4) 0 by simp
  next
    case (Suc j)
    then have "objects s' = h_objects (history s1 ! nat (historyIndex s1 - int k))"
      using s'(4) by blast
    then show ?thesis unfolding s1(2) idx .
  qed
  show ?case using run hist pos objs by blast
qed

lemma undo_at_zero: "historyIndex s \<le> 0 \<Longrightarrow> undo s = Inr s"
  by (simp add: undo_def)


text \<open>
  Claim C2. Starting from the empty store, however many edits are committed the history
  never holds more than 50 snapshots. After 51 committed edits it holds exactly 50: the
  snapshots of the run without the first one, in order, with the index at 49. From there
  \<open>undo\<close> steps back \<open>k\<close> times for every \<open>k\<close> up to 49, landing on the snapshot
  \<open>49 - k\<close>, and after 49 steps a further \<open>undo\<close> changes nothing.
\<close>

theorem history_capped_oldest_evicted:
  assumes "list_all keeps_history es"
  shows "length (history (commits es initial_state)) \<le> 50 \<and>
     (length es = 51 \<longrightarrow>
        length (history (commits es initial_state)) = 50 \<and>
        history (commits es initial_state) = tl (snapshots es initial_state) \<and>
        historyIndex (commits es initial_state) = 49 \<and>
        (\<forall>k\<le>49. \<exists>s'. undo_n k (commits es initial_state) = Inr s' \<and>
            historyIndex s' = 49 - int k \<and>
            history s' = history (commits es initial_state) \<and>
            (0 < k \<longrightarrow> objects s' = h_objects (history (commits es initial_state) ! (49 - k)))) \<and>
        (\<forall>s'. undo_n 49 (commits es initial_state) = Inr s' \<longrightarrow> undo s' = Inr s'))"
proof -
  let ?f = "commits es initial_state"
  have top0: "at_top initial_state" by (simp add: at_top_def initial_state_def)
  have len0: "length (history initial_state) \<le> 50" by (simp add: initial_state_def)
  have h: "history ?f = drop (length es - 50) (snapshots es initial_state)"
    and top: "at_top ?f"
    using commits_history[OF top0 len0 assms] by (simp_all add: initial_state_def length_snapshots)
  have bound: "length (history ?f) \<le> 50" using h by (simp add: length_snapshots)
  have full: "length es = 51 \<longrightarrow>
        length (history ?f) = 50 \<and> history ?f = tl (snapshots es initial_state) \<and>
        historyIndex ?f = 49 \<and>
        (\<forall>k\<le>49. \<exists>s'. undo_n k ?f = Inr s' \<and> historyIndex s' = 49 - int k \<and>
            history s' = history ?f \<and>
            (0 < k \<longrightarrow> objects s' = h_objects (history ?f ! (49 - k)))) \<and>
        (\<forall>s'. undo_n 49 ?f = Inr s' \<longrightarrow> undo s' = Inr s')"
  proof
    assume n: "length es = 51"
    have l50: "length (history ?f) = 50" using h n by (simp add: length_snapshots)
    have tl: "history ?f = tl (snapshots es initial_state)"
      using h n by (simp add: drop_Suc)
    have idx: "historyIndex ?f = 49" using top l50 by (simp add: at_top_def)
    have steps: "\<forall>k\<le>49. \<exists>s'. undo_n k ?f = Inr s' \<and> historyIndex s' = 49 - int k \<and>
            history s' = history ?f \<and>
            (0 < k \<longrightarrow> objects s' = h_objects (history ?f ! (49 - k)))"
    proof (intro allI impI)
      fix k :: nat assume k: "k \<le> 49"
      have "int k \<le> historyIndex ?f" "historyIndex ?f \<le> int (length (history ?f))"
        using k idx l50 by simp_all
      from undo_n_steps[OF this] obtain s' where
        s': "undo_n k ?f = Inr s'" "history s' = history ?f"
          "historyIndex s' = historyIndex ?f - int k"
          "0 < k \<longrightarrow> objects s' = h_objects (history ?f ! nat (historyIndex ?f - int k))"
        by blast
      have "nat (historyIndex ?f - int k) = 49 - k" using idx k by simp
      then show "\<exists>s'. undo_n k ?f = Inr s' \<and> historyIndex s' = 49 - int k \<and>
            history s' = history ?f \<and>
            (0 < k \<longrightarrow> objects s' = h_objects (history ?f ! (49 - k)))"
        using s' idx by auto
    qed
    have stop: "\<forall>s'. undo_n 49 ?f = Inr s' \<longrightarrow> undo s' = Inr s'"
    proof (intro allI impI)
      fix s' assume a: "undo_n 49 ?f = Inr s'"
      from steps obtain s'' where "undo_n 49 ?f = Inr s''" "historyIndex s'' = 49 - int 49"
        by blast
      then have "historyIndex s' = 0" using a by simp
      then show "undo s' = Inr s'" by (simp add: undo_at_zero)
    qed
    show "length (history ?f) = 50 \<and> history ?f = tl (snapshots es initial_state) \<and>
        historyIndex ?f = 49 \<and>
        (\<forall>k\<le>49. \<exists>s'. undo_n k ?f = Inr s' \<and> historyIndex s' = 49 - int k \<and>
            history s' = history ?f \<and>
            (0 < k \<longrightarrow> objects s' = h_objects (history ?f ! (49 - k)))) \<and>
        (\<forall>s'. undo_n 49 ?f = Inr s' \<longrightarrow> undo s' = Inr s')"
      using l50 tl idx steps stop by blast
  qed
  show ?thesis using bound full by blast
qed

theorem history_capped_oldest_evicted_witness:
  "list_all keeps_history (replicate 51 an_edit) \<and> length (replicate 51 an_edit) = 51 \<and>
   length (history (commits (replicate 51 an_edit) initial_state)) = 50 \<and>
   history (commits (replicate 51 an_edit) initial_state)
     = tl (snapshots (replicate 51 an_edit) initial_state) \<and>
   historyIndex (commits (replicate 51 an_edit) initial_state) = 49"
proof -
  have k: "list_all keeps_history (replicate 51 an_edit)"
    by (simp add: list_all_length keeps_history_def an_edit_def)
  have l: "length (replicate 51 an_edit) = 51" by simp
  show ?thesis using k l history_capped_oldest_evicted[OF k] by blast
qed

section \<open>Properties of undo and redo\<close>

lemma to_lower_A: "toLowerCase ''A'' = ''a''"
  by (simp add: toLowerCase_def)

lemma not_custom_A: "parameters g \<noteq> None \<Longrightarrow> gclass g = BoxGeometry \<Longrightarrow> \<not> isCustomGeometry g ''A''"
  by (simp add: isCustomGeometry_def to_lower_A geom_instanceof_def)

lemma created_A_objects:
  "objects (created_A lib) = [\<lparr>oid = ''id-A'', object = 0, oname = ''A'', visible = True,
       locked = False, groupId = None, firestoreId = Some ''doc-1''\<rparr>]"
  by (simp add: created_A_def addObject_def empty_scene_def initial_state_def truthy_def
      objectToFirestore_def unit_box_def new_BoxGeometry_def construct_def not_custom_A
      geom_instanceof_def saveToHistory_def markUnsavedChanges_def currentState_def Let_def
      js_slice0_def split: prod.splits)


lemma created_A_history:
  "length (history (created_A lib)) = 1 \<and> historyIndex (created_A lib) = 0 \<and> canUndo (created_A lib)"
  by (simp add: created_A_def saveToHistory_def markUnsavedChanges_def Let_def js_slice0_def
      addObject_def empty_scene_def initial_state_def truthy_def
      objectToFirestore_def unit_box_def new_BoxGeometry_def construct_def not_custom_A
      geom_instanceof_def split: prod.splits)

text \<open>
  Claim C5. Creating \<open>A\<close> in the empty scene and committing gives a history of length 1
  with index 0, and \<open>canUndo\<close> is set. The \<open>undo\<close> that follows returns the store as it
  is, since the index is not above 0: the object list still holds \<open>A\<close> (it is not empty),
  and the \<open>redo\<close> after it changes nothing either, so \<open>A\<close> keeps its persisted id.
\<close>

theorem first_commit_cannot_be_undone:
  "length (history (created_A lib)) = 1 \<and> historyIndex (created_A lib) = 0 \<and>
   canUndo (created_A lib) \<and>
   undo (created_A lib) = Inr (created_A lib) \<and>
   map oid (objects (created_A lib)) = [''id-A''] \<and>
   redo (created_A lib) = Inr (created_A lib) \<and>
   map firestoreId (objects (created_A lib)) = [Some ''doc-1'']"
  using created_A_history[of lib] by (simp add: undo_def redo_def created_A_objects)

text \<open>
  Claim C6, as stated, fails: the light of the restored snapshot has intensity 5 and
  colour \<open>#ff0000\<close>, its rebuilt handle has intensity 1 and colour \<open>#ffffff\<close>; the handle
  does not carry the persisted parameters.
\<close>

theorem restored_handle_ignores_intensity:
  "\<exists>s'. undo lit_history = Inr s' \<and> historyIndex s' = 0 \<and>
        map intensity (lights s') = [5] \<and>
        map (map_option hintensity \<circ> lobject) (lights s') = [Some 1] \<and>
        map color (lights s') = [''#ff0000''] \<and>
        map (map_option hcolor \<circ> lobject) (lights s') = [Some ''#ffffff''] \<and>
        \<not> list_all handle_in_sync (lights s')"
  by (simp add: undo_def lit_history_def initial_state_def js_index_def restore_light_def
      dim_light_def createLight_def handle_in_sync_def sync_handle_def)

lemma createLight_constants:
  "hintensity (createLight ty pos tg) = 1 \<and> hcolor (createLight ty pos tg) = ''#ffffff'' \<and>
   hcastShadow (createLight ty pos tg) \<and> hvisible (createLight ty pos tg) \<and>
   hposition (createLight ty pos tg) = pos"
  by (simp add: createLight_def)

lemma snapshot_has_no_handles:
  "list_all (\<lambda>l. lobject l = None) (h_lights (snd (currentState s)))"
  by (simp add: currentState_def list_all_iff strip_handle_def split: prod.splits)

lemma undo_in_range:
  assumes "0 < historyIndex s" "historyIndex s \<le> int (length (history s))"
  shows "undo s = Inr (s\<lparr>objects := h_objects (history s ! nat (historyIndex s - 1)),
                     groups := h_groups (history s ! nat (historyIndex s - 1)),
                     lights := map restore_light (h_lights (history s ! nat (historyIndex s - 1))),
                     historyIndex := historyIndex s - 1,
                     canUndo := (historyIndex s - 1 > 0),
                     canRedo := True,
                     selectedObject := None,
                     selectedLight := None\<rparr>)"
  using assms by (simp add: undo_def js_index_def)

lemma redo_in_range:
  assumes "- 1 \<le> historyIndex s" "historyIndex s < int (length (history s)) - 1"
  shows "redo s = Inr (s\<lparr>objects := h_objects (history s ! nat (historyIndex s + 1)),
                     groups := h_groups (history s ! nat (historyIndex s + 1)),
                     lights := map restore_light (h_lights (history s ! nat (historyIndex s + 1))),
                     historyIndex := historyIndex s + 1,
                     canUndo := True,
                     canRedo := (historyIndex s + 1 < int (length (history s)) - 1),
                     selectedObject := None,
                     selectedLight := None\<rparr>)"
  using assms by (simp add: redo_def js_index_def)

text \<open>
  Claim C6, amended. \<open>undo\<close> and \<open>redo\<close> return the store unchanged when the index is
  out of range; in range they move the index by one, keep the history, restore the
  snapshot's objects and groups, rebuild the handle of each light of the snapshot by
  \<open>createLight\<close> from its type, position and target, and clear the object and light
  selection. A snapshot holds no handle. The handle \<open>createLight\<close> builds has intensity 1,
  colour \<open>#ffffff\<close>, \<open>castShadow\<close> and \<open>visible\<close> true, whatever the light's record says.
\<close>

theorem undo_redo_restore:
  "(historyIndex s \<le> 0 \<longrightarrow> undo s = Inr s) \<and>
   (0 < historyIndex s \<and> historyIndex s \<le> int (length (history s)) \<longrightarrow>
      (\<exists>s'. undo s = Inr s' \<and> historyIndex s' = historyIndex s - 1 \<and>
         history s' = history s \<and>
         objects s' = h_objects (history s ! nat (historyIndex s - 1)) \<and>
         groups s' = h_groups (history s ! nat (historyIndex s - 1)) \<and>
         lights s' = map (\<lambda>l. l\<lparr>lobject := Some (createLight (ltype l) (lposition l) (ltarget l))\<rparr>)
                       (h_lights (history s ! nat (historyIndex s - 1))) \<and>
         selectedObject s' = None \<and> selectedLight s' = None)) \<and>
   (int (length (history s)) - 1 \<le> historyIndex s \<longrightarrow> redo s = Inr s) \<and>
   (- 1 \<le> historyIndex s \<and> historyIndex s < int (length (history s)) - 1 \<longrightarrow>
      (\<exists>s'. redo s = Inr s' \<and> historyIndex s' = historyIndex s + 1 \<and>
         history s' = history s \<and>
         objects s' = h_objects (history s ! nat (historyIndex s + 1)) \<and>
         groups s' = h_groups (history s ! nat (historyIndex s + 1)) \<and>
         lights s' = map (\<lambda>l. l\<lparr>lobject := Some (createLight (ltype l) (lposition l) (ltarget l))\<rparr>)
                       (h_lights (history s ! nat (historyIndex s + 1))) \<and>
         selectedObject s' = None \<and> selectedLight s' = None)) \<and>
   list_all (\<lambda>l. lobject l = None) (h_lights (snd (currentState s))) \<and>
   hintensity (createLight ty pos tg) = 1 \<and> hcolor (createLight ty pos tg) = ''#ffffff'' \<and>
   hcastShadow (createLight ty pos tg) \<and> hvisible (createLight ty pos tg) \<and>
   hposition (createLight ty pos tg) = pos"
proof -
  have u0: "historyIndex s \<le> 0 \<longrightarrow> undo s = Inr s" by (simp add: undo_def)
  have r0: "int (length (history s)) - 1 \<le> historyIndex s \<longrightarrow> redo s = Inr s"
    by (simp add: redo_def)
  have u1: "0 < historyIndex s \<and> historyIndex s \<le> int (length (history s)) \<longrightarrow>
      (\<exists>s'. undo s = Inr s' \<and> historyIndex s' = historyIndex s - 1 \<and>
         history s' = history s \<and>
         objects s' = h_objects (history s ! nat (historyIndex s - 1)) \<and>
         groups s' = h_groups (history s ! nat (historyIndex s - 1)) \<and>
         lights s' = map (\<lambda>l. l\<lparr>lobject := Some (createLight (ltype l) (lposition l) (ltarget l))\<rparr>)
                       (h_lights (history s ! nat (historyIndex s - 1))) \<and>
         selectedObject s' = None \<and> selectedLight s' = None)"
  proof
    assume a: "0 < historyIndex s \<and> historyIndex s \<le> int (length (history s))"
    have rl: "restore_light = (\<lambda>l. l\<lparr>lobject := Some (createLight (ltype l) (lposition l) (ltarget l))\<rparr>)"
      by (rule ext) (simp add: restore_light_def)
    show "\<exists>s'. undo s = Inr s' \<and> historyIndex s' = historyIndex s - 1 \<and>
         history s' = history s \<and>
         objects s' = h_objects (history s ! nat (historyIndex s - 1)) \<and>
         groups s' = h_groups (history s ! nat (historyIndex s - 1)) \<and>
         lights s' = map (\<lambda>l. l\<lparr>lobject := Some (createLight (ltype l) (lposition l) (ltarget l))\<rparr>)
                       (h_lights (history s ! nat (historyIndex s - 1))) \<and>
         selectedObject s' = None \<and> selectedLight s' = None"
      using a by (simp add: undo_in_range rl)
  qed
  have r1: "- 1 \<le> historyIndex s \<and> historyIndex s < int (length (history s)) - 1 \<longrightarrow>
      (\<exists>s'. redo s = Inr s' \<and> historyIndex s' = historyIndex s + 1 \<and>
         history s' = history s \<and>
         objects s' = h_objects (history s ! nat (historyIndex s + 1)) \<and>
         groups s' = h_groups (history s ! nat (historyIndex s + 1)) \<and>
         lights s' = map (\<lambda>l. l\<lparr>lobject := Some (createLight (ltype l) (lposition l) (ltarget l))\<rparr>)
                       (h_lights (history s ! nat (historyIndex s + 1))) \<and>
         selectedObject s' = None \<and> selectedLight s' = None)"
  proof
    assume a: "- 1 \<le> historyIndex s \<and> historyIndex s < int (length (history s)) - 1"
    have rl: "restore_light = (\<lambda>l. l\<lparr>lobject := Some (createLight (ltype l) (lposition l) (ltarget l))\<rparr>)"
      by (rule ext) (simp add: restore_light_def)
    show "\<exists>s'. redo s = Inr s' \<and> historyIndex s' = historyIndex s + 1 \<and>
         history s' = history s \<and>
         objects s' = h_objects (history s ! nat (historyIndex s + 1)) \<and>
         groups s' = h_groups (history s ! nat (historyIndex s + 1)) \<and>
         lights s' = map (\<lambda>l. l\<lparr>lobject := Some (createLight (ltype l) (lposition l) (ltarget l))\<rparr>)
                       (h_lights (history s ! nat (historyIndex s + 1))) \<and>
         selectedObject s' = None \<and> selectedLight s' = None"
      using a by (simp add: redo_in_range rl)
  qed
  show ?thesis
    using u0 u1 r0 r1 snapshot_has_no_handles[of s] createLight_constants[of ty pos tg] by blast
qed

theorem undo_redo_restore_witness:
  "0 < historyIndex lit_history \<and> historyIndex lit_history \<le> int (length (history lit_history)) \<and>
   (\<exists>s'. undo lit_history = Inr s' \<and> historyIndex s' = 0 \<and>
        lights s' = [dim_light\<lparr>lobject := Some (createLight ''point'' [2, 2, 2] [0, 0, 0])\<rparr>] \<and>
        selectedObject s' = None \<and> selectedLight s' = None \<and>
        int (length (history s')) - 1 > historyIndex s' \<and>
        (\<exists>s''. redo s' = Inr s'' \<and> historyIndex s'' = 1 \<and> lights s'' = []))"
proof -
  have a: "0 < historyIndex lit_history \<and> historyIndex lit_history \<le> int (length (history lit_history))"
    by (simp add: lit_history_def initial_state_def)
  from undo_redo_restore[of lit_history] a obtain s' where
    s': "undo lit_history = Inr s'" "historyIndex s' = historyIndex lit_history - 1"
      "history s' = history lit_history"
      "lights s' = map (\<lambda>l. l\<lparr>lobject := Some (createLight (ltype l) (lposition l) (ltarget l))\<rparr>)
                       (h_lights (history lit_history ! nat (historyIndex lit_history - 1)))"
      "selectedObject s' = None" "selectedLight s' = None"
    by blast
  have b: "- 1 \<le> historyIndex s' \<and> historyIndex s' < int (length (history s')) - 1"
    using s' by (simp add: lit_history_def initial_state_def)
  from undo_redo_restore[of s'] b obtain s'' where
    s'': "redo s' = Inr s''" "historyIndex s'' = historyIndex s' + 1"
      "lights s'' = map (\<lambda>l. l\<lparr>lobject := Some (createLight (ltype l) (lposition l) (ltarget l))\<rparr>)
                       (h_lights (history s' ! nat (historyIndex s' + 1)))"
    by blast
  have "lights s' = [dim_light\<lparr>lobject := Some (createLight ''point'' [2, 2, 2] [0, 0, 0])\<rparr>]"
    using s'(4) by (simp add: lit_history_def initial_state_def dim_light_def)
  moreover have "historyIndex s'' = 1 \<and> lights s'' = []"
    using s'' s' by (simp add: lit_history_def initial_state_def)
  moreover have "historyIndex s' = 0" using s'(2) by (simp add: lit_history_def initial_state_def)
  ultimately show ?thesis using a b s'(1,5,6) s''(1) by auto
qed

section \<open>Properties of the lock cascade\<close>

lemma isObjectLocked_iff:
  "find (\<lambda>obj. oid obj = ident) (objects state) = Some x \<Longrightarrow>
   isObjectLocked state ident = (locked x \<or> in_locked_group state x)"
  by (simp add: isObjectLocked_def in_locked_group_def split: option.splits)

text \<open>
  Claim C4. For an object of the store that is locked, or whose group is locked (which is
  when \<open>isObjectLocked\<close> holds), rename, toggle-visibility and delete end at once with the
  store as it was: no gateway call, no \<open>console.error\<close>, no commit scheduled.
\<close>

theorem locked_object_mutations_are_noops:
  assumes "find (\<lambda>obj. oid obj = ident) (objects state) = Some x"
    and "locked x \<or> in_locked_group state x"
  shows "isObjectLocked state ident \<and>
         updateObjectName ident name state = Done state \<and>
         toggleVisibility ident state = Done state \<and>
         removeObject ident state = Done state"
  using assms
  by (auto simp: isObjectLocked_iff updateObjectName_def toggleVisibility_def removeObject_def)

theorem locked_object_mutations_are_noops_witness:
  "find (\<lambda>obj. oid obj = ''o1'') (objects locked_scene) = Some (hd (objects locked_scene)) \<and>
   locked (hd (objects locked_scene)) \<and>
   find (\<lambda>obj. oid obj = ''o2'') (objects locked_scene) = Some (objects locked_scene ! 1) \<and>
   in_locked_group locked_scene (objects locked_scene ! 1) \<and>
   removeObject ''o1'' locked_scene = Done locked_scene \<and>
   toggleVisibility ''o2'' locked_scene = Done locked_scene \<and>
   updateObjectName ''o2'' ''Sphere'' locked_scene = Done locked_scene"
proof -
  have f1: "find (\<lambda>obj. oid obj = ''o1'') (objects locked_scene) = Some (hd (objects locked_scene))"
    by (simp add: locked_scene_def)
  have l1: "locked (hd (objects locked_scene))" by (simp add: locked_scene_def)
  have f2: "find (\<lambda>obj. oid obj = ''o2'') (objects locked_scene) = Some (objects locked_scene ! 1)"
    by (simp add: locked_scene_def)
  have l2: "in_locked_group locked_scene (objects locked_scene ! 1)"
    by (simp add: locked_scene_def in_locked_group_def truthy_def)
  show ?thesis
    using f1 l1 f2 l2
      locked_object_mutations_are_noops[OF f1, where name = "''Box''"]
      locked_object_mutations_are_noops[OF f2, where name = "''Sphere''"]
    by blast
qed

lemma find_map_same_id:
  "(\<And>x. oid (f x) = oid x) \<Longrightarrow>
   find (\<lambda>obj. oid obj = i) (map (\<lambda>obj. if oid obj = i then f obj else obj) xs)
     = map_option f (find (\<lambda>obj. oid obj = i) xs)"
  by (induction xs) auto

lemma final_on_outcome: "final gw (on_outcome out t) = final gw t"
  by (cases out) (simp_all add: on_outcome_def)

text \<open>
  Claim C10. \<open>toggleLock\<close> on an object of the store is a no-op when the object's group is
  locked; otherwise it flips the \<open>locked\<close> flag of the object, whether the flag was set or
  not and whatever the outcome of the write-back.
\<close>

theorem toggleLock_ignores_own_lock:
  assumes "find (\<lambda>obj. oid obj = ident) (objects state) = Some x"
  shows "(in_locked_group state x \<longrightarrow> toggleLock ident state = Done state) \<and>
         (\<not> in_locked_group state x \<longrightarrow>
            objects (final gw (toggleLock ident state))
              = map (\<lambda>obj. if oid obj = ident then obj\<lparr>locked := \<not> locked x\<rparr> else obj)
                  (objects state) \<and>
            find (\<lambda>obj. oid obj = ident) (objects (final gw (toggleLock ident state)))
              = Some (x\<lparr>locked := \<not> locked x\<rparr>))"
proof -
  have a: "in_locked_group state x \<longrightarrow> toggleLock ident state = Done state"
    using assms by (simp add: toggleLock_def)
  have objs: "\<not> in_locked_group state x \<Longrightarrow>
      objects (final gw (toggleLock ident state))
        = map (\<lambda>obj. if oid obj = ident then obj\<lparr>locked := \<not> locked x\<rparr> else obj) (objects state)"
    using assms
    by (simp add: toggleLock_def Let_def final_on_outcome markUnsavedChanges_def)
  have "find (\<lambda>obj. oid obj = ident)
          (map (\<lambda>obj. if oid obj = ident then obj\<lparr>locked := \<not> locked x\<rparr> else obj) (objects state))
        = Some (x\<lparr>locked := \<not> locked x\<rparr>)"
    using assms find_map_same_id[of "\<lambda>obj. obj\<lparr>locked := \<not> locked x\<rparr>" ident "objects state"]
    by simp
  then show ?thesis using a objs by simp
qed

theorem toggleLock_ignores_own_lock_witness:
  "find (\<lambda>obj. oid obj = ''o1'') (objects locked_scene) = Some (hd (objects locked_scene)) \<and>
   locked (hd (objects locked_scene)) \<and>
   \<not> in_locked_group locked_scene (hd (objects locked_scene)) \<and>
   find (\<lambda>obj. oid obj = ''o1'') (objects (final (\<lambda>c. Rejected) (toggleLock ''o1'' locked_scene)))
     = Some ((hd (objects locked_scene))\<lparr>locked := False\<rparr>) \<and>
   find (\<lambda>obj. oid obj = ''o2'') (objects locked_scene) = Some (objects locked_scene ! 1) \<and>
   in_locked_group locked_scene (objects locked_scene ! 1) \<and>
   toggleLock ''o2'' locked_scene = Done locked_scene"
proof -
  have f1: "find (\<lambda>obj. oid obj = ''o1'') (objects locked_scene) = Some (hd (objects locked_scene))"
    by (simp add: locked_scene_def)
  have l1: "locked (hd (objects locked_scene))" by (simp add: locked_scene_def)
  have n1: "\<not> in_locked_group locked_scene (hd (objects locked_scene))"
    by (simp add: locked_scene_def in_locked_group_def truthy_def)
  have f2: "find (\<lambda>obj. oid obj = ''o2'') (objects locked_scene) = Some (objects locked_scene ! 1)"
    by (simp add: locked_scene_def)
  have l2: "in_locked_group locked_scene (objects locked_scene ! 1)"
    by (simp add: locked_scene_def in_locked_group_def truthy_def)
  have u: "find (\<lambda>obj. oid obj = ''o1'') (objects (final (\<lambda>c. Rejected) (toggleLock ''o1'' locked_scene)))
     = Some ((hd (objects locked_scene))\<lparr>locked := \<not> locked (hd (objects locked_scene))\<rparr>)"
    using toggleLock_ignores_own_lock[OF f1, of "\<lambda>c. Rejected"] n1 by blast
  have u': "find (\<lambda>obj. oid obj = ''o1'') (objects (final (\<lambda>c. Rejected) (toggleLock ''o1'' locked_scene)))
     = Some ((hd (objects locked_scene))\<lparr>locked := False\<rparr>)"
    using u l1 by simp
  have k: "toggleLock ''o2'' locked_scene = Done locked_scene"
    using toggleLock_ignores_own_lock[OF f2, of "\<lambda>c. Rejected"] l2 by blast
  show ?thesis using f1 l1 n1 f2 l2 u' k by blast
qed

section \<open>Properties of group membership\<close>

text \<open>
  \<open>moveObjectsToGroup\<close> and \<open>removeObjectFromGroup\<close> keep the membership invariant;
  \<open>addObjectToGroup\<close> keeps it when the object is not a member of another group.
\<close>

lemma final_move_write_backs:
  "final gw (move_write_backs st g ids cur) = markUnsavedChanges cur"
  by (induction ids arbitrary: cur) (auto simp: final_on_outcome markUnsavedChanges_def split: option.splits)

lemma moveObjectsToGroup_bidirectional:
  assumes "bidirectional state" "g = None \<or> truthy g"
  shows "bidirectional (final gw (moveObjectsToGroup ids g state))"
proof -
  have inv: "\<And>ob gr. ob \<in> set (objects state) \<Longrightarrow> gr \<in> set (groups state) \<Longrightarrow>
      (groupId ob = Some (gid gr)) = (oid ob \<in> set (objectIds gr))"
    using assms(1) by (simp add: bidirectional_def list_all_iff)
  show ?thesis
    using assms(2) inv
    by (auto simp: moveObjectsToGroup_def Let_def final_move_write_backs markUnsavedChanges_def
        bidirectional_def list_all_iff truthy_def)
qed


lemma find_Some_unique:
  "distinct (map oid xs) \<Longrightarrow> find (\<lambda>ob. oid ob = i) xs = Some x \<Longrightarrow> y \<in> set xs \<Longrightarrow>
   oid y = i \<Longrightarrow> y = x"
  by (induction xs) (auto split: if_splits simp: image_iff)

lemma find_Some_mem: "find P xs = Some x \<Longrightarrow> x \<in> set xs \<and> P x"
  by (induction xs) (auto split: if_splits)

lemma removeObjectFromGroup_final:
  "final gw (removeObjectFromGroup i state) = state \<or>
   (\<exists>x. find (\<lambda>ob. oid ob = i) (objects state) = Some x \<and>
        objects (final gw (removeObjectFromGroup i state))
          = map (\<lambda>ob. if oid ob = i then ob\<lparr>groupId := None\<rparr> else ob) (objects state) \<and>
        groups (final gw (removeObjectFromGroup i state))
          = map (\<lambda>g. if Some (gid g) = groupId x
                       then g\<lparr>objectIds := filter (\<lambda>j. j \<noteq> i) (objectIds g)\<rparr> else g)
              (groups state))"
  by (simp add: removeObjectFromGroup_def Let_def final_on_outcome markUnsavedChanges_def
      split: option.splits)


lemma removeObjectFromGroup_bidirectional:
  assumes "bidirectional state" "distinct (map oid (objects state))"
  shows "bidirectional (final gw (removeObjectFromGroup i state))"
proof -
  let ?s' = "final gw (removeObjectFromGroup i state)"
  have inv: "\<And>ob gr. ob \<in> set (objects state) \<Longrightarrow> gr \<in> set (groups state) \<Longrightarrow>
      (groupId ob = Some (gid gr)) = (oid ob \<in> set (objectIds gr))"
    using assms(1) by (simp add: bidirectional_def list_all_iff)
  from removeObjectFromGroup_final[of gw i state] show ?thesis
  proof
    assume "?s' = state"
    then show ?thesis using assms(1) by simp
  next
    assume "\<exists>x. find (\<lambda>ob. oid ob = i) (objects state) = Some x \<and>
        objects ?s' = map (\<lambda>ob. if oid ob = i then ob\<lparr>groupId := None\<rparr> else ob) (objects state) \<and>
        groups ?s' = map (\<lambda>g. if Some (gid g) = groupId x
                       then g\<lparr>objectIds := filter (\<lambda>j. j \<noteq> i) (objectIds g)\<rparr> else g)
              (groups state)"
    then obtain x where x: "find (\<lambda>ob. oid ob = i) (objects state) = Some x"
      and objs: "objects ?s' = map (\<lambda>ob. if oid ob = i then ob\<lparr>groupId := None\<rparr> else ob) (objects state)"
      and grps: "groups ?s' = map (\<lambda>g. if Some (gid g) = groupId x
                       then g\<lparr>objectIds := filter (\<lambda>j. j \<noteq> i) (objectIds g)\<rparr> else g)
              (groups state)"
      by blast
    have step: "(groupId (if oid ob = i then ob\<lparr>groupId := None\<rparr> else ob)
           = Some (gid (if Some (gid g) = groupId x
                        then g\<lparr>objectIds := filter (\<lambda>j. j \<noteq> i) (objectIds g)\<rparr> else g)))
        = (oid (if oid ob = i then ob\<lparr>groupId := None\<rparr> else ob)
             \<in> set (objectIds (if Some (gid g) = groupId x
                        then g\<lparr>objectIds := filter (\<lambda>j. j \<noteq> i) (objectIds g)\<rparr> else g)))"
      if ob: "ob \<in> set (objects state)" and g: "g \<in> set (groups state)" for ob g
    proof (cases "oid ob = i")
      case True
      then have "ob = x" using find_Some_unique[OF assms(2) x ob] by simp
      then have "(groupId x = Some (gid g)) = (i \<in> set (objectIds g))"
        using inv[OF ob g] True by simp
      then show ?thesis using True by auto
    next
      case False
      then show ?thesis using inv[OF ob g] by auto
    qed
    show ?thesis
      unfolding bidirectional_def list_all_iff objs grps
    proof (intro ballI)
      fix ob' g'
      assume "ob' \<in> set (map (\<lambda>ob. if oid ob = i then ob\<lparr>groupId := None\<rparr> else ob) (objects state))"
        and "g' \<in> set (map (\<lambda>g. if Some (gid g) = groupId x
                       then g\<lparr>objectIds := filter (\<lambda>j. j \<noteq> i) (objectIds g)\<rparr> else g)
              (groups state))"
      then obtain ob g where "ob \<in> set (objects state)" "g \<in> set (groups state)"
        and "ob' = (if oid ob = i then ob\<lparr>groupId := None\<rparr> else ob)"
        and "g' = (if Some (gid g) = groupId x
                       then g\<lparr>objectIds := filter (\<lambda>j. j \<noteq> i) (objectIds g)\<rparr> else g)"
        unfolding set_map by blast
      then show "(groupId ob' = Some (gid g')) = (oid ob' \<in> set (objectIds g'))"
        using step[of ob g] by blast
    qed
  qed
qed


lemma addObjectToGroup_final:
  "final gw (addObjectToGroup i g state) = state \<or>
   (objects (final gw (addObjectToGroup i g state))
      = map (\<lambda>ob. if oid ob = i then ob\<lparr>groupId := Some g\<rparr> else ob) (objects state) \<and>
    groups (final gw (addObjectToGroup i g state))
      = map (\<lambda>gr. if gid gr = g then gr\<lparr>objectIds := objectIds gr @ [i]\<rparr> else gr)
          (groups state))"
  by (simp add: addObjectToGroup_def Let_def final_on_outcome markUnsavedChanges_def
      split: option.splits)

lemma addObjectToGroup_bidirectional:
  assumes "bidirectional state"
    and "\<And>ob. ob \<in> set (objects state) \<Longrightarrow> oid ob = i \<Longrightarrow>
           groupId ob = None \<or> groupId ob = Some g"
  shows "bidirectional (final gw (addObjectToGroup i g state))"
proof -
  let ?s' = "final gw (addObjectToGroup i g state)"
  have inv: "\<And>ob gr. ob \<in> set (objects state) \<Longrightarrow> gr \<in> set (groups state) \<Longrightarrow>
      (groupId ob = Some (gid gr)) = (oid ob \<in> set (objectIds gr))"
    using assms(1) by (simp add: bidirectional_def list_all_iff)
  from addObjectToGroup_final[of gw i g state] show ?thesis
  proof
    assume "?s' = state"
    then show ?thesis using assms(1) by simp
  next
    assume a: "objects ?s' = map (\<lambda>ob. if oid ob = i then ob\<lparr>groupId := Some g\<rparr> else ob) (objects state) \<and>
      groups ?s' = map (\<lambda>gr. if gid gr = g then gr\<lparr>objectIds := objectIds gr @ [i]\<rparr> else gr)
          (groups state)"
    have step: "(groupId (if oid ob = i then ob\<lparr>groupId := Some g\<rparr> else ob)
           = Some (gid (if gid gr = g then gr\<lparr>objectIds := objectIds gr @ [i]\<rparr> else gr)))
        = (oid (if oid ob = i then ob\<lparr>groupId := Some g\<rparr> else ob)
             \<in> set (objectIds (if gid gr = g then gr\<lparr>objectIds := objectIds gr @ [i]\<rparr> else gr)))"
      if ob: "ob \<in> set (objects state)" and gr: "gr \<in> set (groups state)" for ob gr
    proof (cases "oid ob = i")
      case True
      have "groupId ob = None \<or> groupId ob = Some g" using assms(2)[OF ob True] .
      then have "gid gr \<noteq> g \<Longrightarrow> i \<notin> set (objectIds gr)"
        using inv[OF ob gr] True by auto
      then show ?thesis using True by auto
    next
      case False
      then show ?thesis using inv[OF ob gr] by auto
    qed
    show ?thesis
      unfolding bidirectional_def list_all_iff
    proof (intro ballI)
      fix ob' g'
      assume "ob' \<in> set (objects ?s')" and "g' \<in> set (groups ?s')"
      then obtain ob gr where "ob \<in> set (objects state)" "gr \<in> set (groups state)"
        and "ob' = (if oid ob = i then ob\<lparr>groupId := Some g\<rparr> else ob)"
        and "g' = (if gid gr = g then gr\<lparr>objectIds := objectIds gr @ [i]\<rparr> else gr)"
        using a unfolding set_map by auto
      then show "(groupId ob' = Some (gid g')) = (oid ob' \<in> set (objectIds g'))"
        using step[of ob gr] by blast
    qed
  qed
qed

text \<open>
  Claim C3. The invariant holds in a store where \<open>o1\<close> is a member of group \<open>g1\<close>. After
  \<open>addObjectToGroup('o1', 'g2')\<close> the object's \<open>groupId\<close> is \<open>g2\<close> and its id is in the
  \<open>objectIds\<close> of both \<open>g1\<close> and \<open>g2\<close>: the invariant is broken, whatever the gateway
  answers. \<open>moveObjectsToGroup(['o1'], 'g2')\<close> on the same store keeps it.
\<close>

theorem addObjectToGroup_keeps_old_membership:
  "bidirectional two_groups \<and>
   map groupId (objects (final gw (addObjectToGroup ''o1'' ''g2'' two_groups))) = [Some ''g2''] \<and>
   map objectIds (groups (final gw (addObjectToGroup ''o1'' ''g2'' two_groups))) = [[''o1''], [''o1'']] \<and>
   \<not> bidirectional (final gw (addObjectToGroup ''o1'' ''g2'' two_groups)) \<and>
   bidirectional (final gw (moveObjectsToGroup [''o1''] (Some ''g2'') two_groups))"
  by (simp add: two_groups_def initial_state_def bidirectional_def addObjectToGroup_def
      moveObjectsToGroup_def truthy_def markUnsavedChanges_def in_locked_group_def Let_def)


section \<open>Properties of the write-back\<close>



lemma pending_on_outcome: "pending (on_outcome out t) = pending t"
  by (cases out) (simp_all add: on_outcome_def)






















section \<open>Properties of the geometry codec\<close>

text \<open>
  The round trip of a parametric record whose mesh is classified as parametric: a box, a
  sphere and a cylinder come back as they were; a cone comes back as a cylinder record.
\<close>

lemma roundtrip_params_eq:
  "is_mesh_record d \<Longrightarrow>
   roundtrip_params lib d =
     (case objectToFirestore
        \<lparr>otype = ''Mesh'', oposition = f_position d, orotation = f_rotation d,
         oscale = f_scale d, ovisible = f_visible d,
         omaterial = omaterial (the (firestoreToObject lib d)),
         ogeometry = Some (geometry_of_record lib d)\<rparr> (f_name d) (f_id d) (f_userId d) (f_projectId d) of
       Inr d' \<Rightarrow> geometryParams d' | Inl e \<Rightarrow> None)"
  by (auto simp: roundtrip_params_def reserialize_def firestoreToObject_def is_mesh_record_def Let_def
      split: sum.splits)

lemma roundtrip_box:
  assumes "is_mesh_record d" "geometryParams d = Some (box_params w h dp)"
    "\<not> isCustomGeometry (geometry_of_record lib d) (f_name d)"
  shows "roundtrip_params lib d = Some (box_params w h dp)"
proof -
  have g: "geometry_of_record lib d = new_BoxGeometry lib (Some w) (Some h) (Some dp)"
    using assms(1,2) by (simp add: geometry_of_record_def is_mesh_record_def box_params_def no_params_def)
  show ?thesis
    using assms(1,3) unfolding roundtrip_params_eq[OF assms(1)] g
    by (simp add: objectToFirestore_def new_BoxGeometry_def construct_def geom_instanceof_def
        nullish_def box_params_def no_params_def Let_def split: prod.splits option.splits)
qed

lemma roundtrip_sphere:
  assumes "is_mesh_record d" "geometryParams d = Some (sphere_params r ws hs)"
    "\<not> isCustomGeometry (geometry_of_record lib d) (f_name d)"
  shows "roundtrip_params lib d = Some (sphere_params r ws hs)"
proof -
  have g: "geometry_of_record lib d = new_SphereGeometry lib (Some r) (Some ws) (Some hs)"
    using assms(1,2) by (simp add: geometry_of_record_def is_mesh_record_def sphere_params_def no_params_def)
  show ?thesis
    using assms(1,3) unfolding roundtrip_params_eq[OF assms(1)] g
    by (simp add: objectToFirestore_def new_SphereGeometry_def construct_def geom_instanceof_def
        nullish_def sphere_params_def no_params_def Let_def split: prod.splits option.splits)
qed

lemma roundtrip_cylinder:
  assumes "is_mesh_record d" "geometryParams d = Some (cylinder_params rt rb h rs)"
    "\<not> isCustomGeometry (geometry_of_record lib d) (f_name d)"
  shows "roundtrip_params lib d = Some (cylinder_params rt rb h rs)"
proof -
  have g: "geometry_of_record lib d = new_CylinderGeometry lib (Some rt) (Some rb) (Some h) (Some rs)"
    using assms(1,2) by (simp add: geometry_of_record_def is_mesh_record_def cylinder_params_def no_params_def)
  show ?thesis
    using assms(1,3) unfolding roundtrip_params_eq[OF assms(1)] g
    by (simp add: objectToFirestore_def new_CylinderGeometry_def construct_def geom_instanceof_def
        nullish_def cylinder_params_def no_params_def Let_def split: prod.splits option.splits)
qed

lemma roundtrip_cone:
  assumes "is_mesh_record d" "geometryParams d = Some (cone_params r h rs)"
    "\<not> isCustomGeometry (geometry_of_record lib d) (f_name d)"
  shows "roundtrip_params lib d = Some (cylinder_params (1/2) (1/2) h rs)"
proof -
  have g: "geometry_of_record lib d = new_ConeGeometry lib (Some r) (Some h) (Some rs)"
    using assms(1,2) by (simp add: geometry_of_record_def is_mesh_record_def cone_params_def no_params_def)
  show ?thesis
    using assms(1,3) unfolding roundtrip_params_eq[OF assms(1)] g
    by (simp add: objectToFirestore_def new_ConeGeometry_def construct_def geom_instanceof_def
        nullish_def cylinder_params_def no_params_def Let_def split: prod.splits option.splits)
qed

lemma cone_not_custom:
  "\<not> isCustomGeometry (geometry_of_record lib (parametric_record ''Cone'' (cone_params 1 2 8))) ''Cone''"
  by (simp add: isCustomGeometry_def toLowerCase_def geom_instanceof_def geometry_of_record_def
      parametric_record_def cone_params_def no_params_def new_ConeGeometry_def construct_def
      split: prod.splits)

lemma box_not_custom:
  "\<not> isCustomGeometry (geometry_of_record lib (parametric_record ''Box'' (box_params 1 2 3))) ''Box''"
  by (simp add: isCustomGeometry_def toLowerCase_def geom_instanceof_def geometry_of_record_def
      parametric_record_def box_params_def no_params_def new_BoxGeometry_def construct_def
      split: prod.splits)

text \<open>
  Claim C1. The cone record \<open>{radius: 1, height: 2, radialSegments: 8}\<close> named \<open>Cone\<close> is
  deserialised to a \<open>ConeGeometry\<close>; serialising that mesh takes the
  \<open>instanceof THREE.CylinderGeometry\<close> branch, which comes before the cone's, and yields
  \<open>{radiusTop: 0.5, radiusBottom: 0.5, height: 2, radialSegments: 8}\<close>, not the record.
  A box record comes back as it was.
\<close>

theorem cone_reserialized_as_cylinder:
  "roundtrip_params lib (parametric_record ''Cone'' (cone_params 1 2 8))
     = Some (cylinder_params (1/2) (1/2) 2 8) \<and>
   roundtrip_params lib (parametric_record ''Cone'' (cone_params 1 2 8))
     \<noteq> Some (cone_params 1 2 8) \<and>
   roundtrip_params lib (parametric_record ''Box'' (box_params 1 2 3)) = Some (box_params 1 2 3)"
proof -
  let ?c = "parametric_record ''Cone'' (cone_params 1 2 8)"
  let ?b = "parametric_record ''Box'' (box_params 1 2 3)"
  have c: "roundtrip_params lib ?c = Some (cylinder_params (1/2) (1/2) 2 8)"
    using cone_not_custom[of lib]
    by (intro roundtrip_cone[where r = 1]) (simp_all add: parametric_record_def is_mesh_record_def)
  have n: "cylinder_params (1/2) (1/2) 2 8 \<noteq> cone_params 1 2 8"
    by (simp add: cylinder_params_def cone_params_def no_params_def)
  have b: "roundtrip_params lib ?b = Some (box_params 1 2 3)"
    using box_not_custom[of lib]
    by (intro roundtrip_box) (simp_all add: parametric_record_def is_mesh_record_def)
  show ?thesis using c n b by simp
qed











section \<open>Properties of the vertex drag\<close>




















end
